theory Spec2Isabelle
  imports Complex_Main
begin

section \<open>Decision core of the autopilot lab: strategy, skill and cadence\<close>

text \<open>
  The definitions of this section follow \<^verbatim>\<open>src/services/ollamaService.js\<close>.
  JavaScript numbers are modelled as reals (comparisons against the constants of the
  source are what the properties depend on). A sensor field is a \<open>real option\<close>:
  \<open>None\<close> stands for a value that is absent or not a finite number, the case in which
  \<^verbatim>\<open>asNum\<close> takes its fallback. Counters and millisecond timestamps of the session
  state are integers; \<^verbatim>\<open>ensureSmoothingState\<close> replaces a non-finite one by 0, so
  the state record holds finite values only. The clock \<^verbatim>\<open>Date.now()\<close> is an explicit
  argument.
\<close>

subsection \<open>Constants\<close>

abbreviation (input) MODE_SWITCH_COOLDOWN_MS :: int where "MODE_SWITCH_COOLDOWN_MS \<equiv> 2200"
abbreviation (input) MODE_SWITCH_MIN_DWELL_MS :: int where "MODE_SWITCH_MIN_DWELL_MS \<equiv> 1400"
abbreviation (input) MODE_SWITCH_MIN_VOTES :: int where "MODE_SWITCH_MIN_VOTES \<equiv> 2"
abbreviation (input) CRITICAL_FRONT_DIST :: real where "CRITICAL_FRONT_DIST \<equiv> 2.15"
abbreviation (input) TARGET_LOCK_PRIORITY_DISTANCE_M :: real where "TARGET_LOCK_PRIORITY_DISTANCE_M \<equiv> 20"
abbreviation (input) TARGET_LOCK_PRIORITY_ANGLE_DEG :: real where "TARGET_LOCK_PRIORITY_ANGLE_DEG \<equiv> 48"
abbreviation (input) TARGET_LOCK_PRIORITY_PSEUDO :: real where "TARGET_LOCK_PRIORITY_PSEUDO \<equiv> 0.5"
abbreviation (input) TARGET_LOCK_HOLD_DISTANCE_M :: real where "TARGET_LOCK_HOLD_DISTANCE_M \<equiv> 12"
abbreviation (input) TARGET_LOCK_HOLD_ANGLE_DEG :: real where "TARGET_LOCK_HOLD_ANGLE_DEG \<equiv> 72"
abbreviation (input) TARGET_LOCK_HOLD_PSEUDO :: real where "TARGET_LOCK_HOLD_PSEUDO \<equiv> 0.42"
abbreviation (input) TARGET_LOCK_HOLD_MIN_FRONT_DIST :: real where "TARGET_LOCK_HOLD_MIN_FRONT_DIST \<equiv> 2.2"
abbreviation (input) TARGET_LOCK_HOLD_MIN_CYCLES :: int where "TARGET_LOCK_HOLD_MIN_CYCLES \<equiv> 3"
abbreviation (input) MODE_SWITCH_MIN_HOLD_CYCLES :: int where "MODE_SWITCH_MIN_HOLD_CYCLES \<equiv> 2"
abbreviation (input) APPROACH_MIN_HOLD_CYCLES :: int where "APPROACH_MIN_HOLD_CYCLES \<equiv> 3"
abbreviation (input) SKILL_BURST_SCAN_LIMIT :: int where "SKILL_BURST_SCAN_LIMIT \<equiv> 2"
abbreviation (input) SKILL_BURST_BACKOFF_LIMIT :: int where "SKILL_BURST_BACKOFF_LIMIT \<equiv> 2"
abbreviation (input) SKILL_BURST_RELEASE_FRONT_DIST :: real where "SKILL_BURST_RELEASE_FRONT_DIST \<equiv> 3.2"

subsection \<open>Data model\<close>

datatype strategy_mode = TARGET_LOCK | MEMORY_EXPLORE | ESCAPE_RECOVERY

datatype skill = APPROACH_TARGET | MOVE_TO_FRONTIER | SCAN_SECTOR | BACKOFF_AND_TURN | HOLD_POSITION

datatype sector = SecL | SecF | SecR | SecB

text \<open>The sensor snapshot. \<open>targetHits\<close> lists the values of the per-ray hit flags.\<close>

record sensorData =
  front :: "real option"
  leftDiag :: "real option"
  rightDiag :: "real option"
  left :: "real option"
  right :: "real option"
  backRay :: "real option"
  backLeft :: "real option"
  backRight :: "real option"
  isStuck :: bool
  targetHits :: "bool list"
  angleToTarget :: "real option"
  distanceToTarget :: "real option"
  headingDeg :: "real option"
  worldX :: "real option"
  worldZ :: "real option"
  sensorRange :: "real option"

text \<open>The result of \<^verbatim>\<open>updateContactTracking\<close>.\<close>

record contactState =
  cs_hasTargetContact :: bool
  cs_noContactMs :: int
  cs_noContactCycles :: int
  cs_reacquireActive :: bool
  cs_reacquireTurnDir :: int

text \<open>The result of \<^verbatim>\<open>inferContextModeSignal\<close>.\<close>

record signal =
  expectedMode :: strategy_mode
  hasTargetContact :: bool
  strongTargetCue :: bool
  weakTargetCue :: bool
  danger :: bool
  distance :: real
  angleAbs :: real
  minFrontDist :: real
  pseudoContactScore :: real
  lockPriority :: bool
  lockHoldWindow :: bool
  reliableDirectionCue :: bool
  sig_noContactMs :: int
  sig_noContactCycles :: int
  reacquireActive :: bool
  sig_reacquireTurnDir :: int

text \<open>
  The session state (\<^verbatim>\<open>smoothingState\<close>). A mode or skill name stored as a string is an
  option: \<open>None\<close> is the empty string of a fresh state.
\<close>

record smoothingState =
  lastSteering :: real
  lastStrategyMode :: "strategy_mode option"
  lastModeSwitchAt :: int
  pendingStrategyMode :: "strategy_mode option"
  pendingStrategySince :: int
  pendingStrategyVotes :: int
  noContactMs :: int
  noContactCycles :: int
  lastContactAt :: int
  lastTickAt :: int
  reacquireTurnDir :: int
  lastReacquireFlipAt :: int
  lastSkillName :: "skill option"
  approachHoldRemaining :: int
  scanBurstCount :: int
  backoffBurstCount :: int
  modeHoldRemaining :: int
  targetLockHoldRemaining :: int

text \<open>The state of a run that has just been started (every field at its default).\<close>

definition freshState :: smoothingState where
  "freshState = \<lparr> lastSteering = 0, lastStrategyMode = None, lastModeSwitchAt = 0,
     pendingStrategyMode = None, pendingStrategySince = 0, pendingStrategyVotes = 0,
     noContactMs = 0, noContactCycles = 0, lastContactAt = 0, lastTickAt = 0,
     reacquireTurnDir = 1, lastReacquireFlipAt = 0, lastSkillName = None,
     approachHoldRemaining = 0, scanBurstCount = 0, backoffBurstCount = 0,
     modeHoldRemaining = 0, targetLockHoldRemaining = 0 \<rparr>"

subsection \<open>Helpers\<close>

definition asNum :: "real option \<Rightarrow> real \<Rightarrow> real" where
  "asNum v fallback = (case v of Some n \<Rightarrow> n | None \<Rightarrow> fallback)"

definition clampNumber :: "real option \<Rightarrow> real \<Rightarrow> real \<Rightarrow> real \<Rightarrow> real" where
  "clampNumber v lo hi fallback = max lo (min hi (asNum v fallback))"

definition clamp01 :: "real \<Rightarrow> real" where
  "clamp01 v = max 0 (min 1 v)"

definition countTargetHits :: "sensorData \<Rightarrow> nat" where
  "countTargetHits sd = length (filter (\<lambda>h. h) (targetHits sd))"

text \<open>The front-arc clearance, computed in the same way at every place of the source.\<close>

definition frontArc :: "sensorData \<Rightarrow> real" where
  "frontArc sd = min (asNum (front sd) 99) (min (asNum (leftDiag sd) 99) (asNum (rightDiag sd) 99))"

definition normalizeSkillName :: "skill option \<Rightarrow> skill \<Rightarrow> skill" where
  "normalizeSkillName raw fallback = (case raw of Some s \<Rightarrow> s | None \<Rightarrow> fallback)"

subsection \<open>Contact tracking\<close>

definition updateContactTracking :: "int \<Rightarrow> smoothingState \<Rightarrow> sensorData \<Rightarrow> smoothingState \<times> contactState" where
  "updateContactTracking now state sd =
    (let dtMs = max 0 (min 2000 (now - lastTickAt state));
         st1 = state\<lparr>lastTickAt := now\<rparr>;
         contact = list_ex (\<lambda>h. h) (targetHits sd);
         st2 = (if contact
                then st1\<lparr>noContactMs := 0, noContactCycles := 0, lastContactAt := now, lastReacquireFlipAt := 0\<rparr>
                else st1\<lparr>noContactMs := noContactMs st1 + dtMs, noContactCycles := noContactCycles st1 + 1\<rparr>);
         reacq = (\<not> contact \<and> noContactMs st2 \<ge> 12000);
         st3 = (if reacq
                then (let st3a = (if lastReacquireFlipAt st2 = 0 then st2\<lparr>lastReacquireFlipAt := now\<rparr> else st2)
                      in if now - lastReacquireFlipAt st3a > 3500
                         then st3a\<lparr>reacquireTurnDir := (if reacquireTurnDir st3a > 0 then -1 else 1),
                                   lastReacquireFlipAt := now\<rparr>
                         else st3a)
                else st2)
     in (st3, \<lparr> cs_hasTargetContact = contact, cs_noContactMs = noContactMs st3,
               cs_noContactCycles = noContactCycles st3, cs_reacquireActive = reacq,
               cs_reacquireTurnDir = reacquireTurnDir st3 \<rparr>))"

subsection \<open>Context signal\<close>

definition inferContextModeSignal :: "sensorData \<Rightarrow> contactState option \<Rightarrow> signal" where
  "inferContextModeSignal sd cs =
    (let targetHitCount = countTargetHits sd;
         contact = (case cs of Some c \<Rightarrow> cs_hasTargetContact c | None \<Rightarrow> targetHitCount > 0);
         angle = \<bar>asNum (angleToTarget sd) 180\<bar>;
         dist = asNum (distanceToTarget sd) 99;
         ncMs = (case cs of Some c \<Rightarrow> cs_noContactMs c | None \<Rightarrow> 0);
         ncCycles = (case cs of Some c \<Rightarrow> cs_noContactCycles c | None \<Rightarrow> 0);
         mfd = frontArc sd;
         dng = (isStuck sd \<or> mfd < CRITICAL_FRONT_DIST);
         reacq = (case cs of Some c \<Rightarrow> cs_reacquireActive c | None \<Rightarrow> False);
         turnDir = (if (case cs of Some c \<Rightarrow> cs_reacquireTurnDir c | None \<Rightarrow> 1) > 0 then 1 else -1);
         distanceScore = clamp01 ((22 - dist) / 16);
         angleScore = clamp01 ((75 - angle) / 75);
         frontClearScore = clamp01 ((mfd - 2.0) / 5.5);
         hitScore = clamp01 (real targetHitCount / 2);
         pseudo = (if contact then 1
                   else clamp01 (distanceScore * 0.48 + angleScore * 0.37 + frontClearScore * 0.1 + hitScore * 0.05));
         reliable = (dist < 28 \<and> angle \<le> 60 \<and> mfd > 2.5);
         strong = (contact \<or> (\<not> dng \<and> pseudo \<ge> 0.6 \<and> reliable));
         weak = (\<not> contact \<and> (pseudo \<le> 0.22 \<or> dist > 30 \<or> angle > 95 \<or> (ncMs \<ge> 18000 \<and> pseudo < 0.4)));
         lockPrio = (\<not> dng \<and> (contact \<or> (dist \<le> TARGET_LOCK_PRIORITY_DISTANCE_M
                        \<and> angle \<le> TARGET_LOCK_PRIORITY_ANGLE_DEG \<and> pseudo \<ge> TARGET_LOCK_PRIORITY_PSEUDO)));
         lockHold = (\<not> dng \<and> mfd > TARGET_LOCK_HOLD_MIN_FRONT_DIST
                      \<and> (contact \<or> (dist \<le> TARGET_LOCK_HOLD_DISTANCE_M
                        \<and> angle \<le> TARGET_LOCK_HOLD_ANGLE_DEG \<and> pseudo \<ge> TARGET_LOCK_HOLD_PSEUDO)));
         expected = (if dng then ESCAPE_RECOVERY
                     else if lockPrio \<or> strong then TARGET_LOCK else MEMORY_EXPLORE)
     in \<lparr> expectedMode = expected, hasTargetContact = contact, strongTargetCue = strong,
          weakTargetCue = weak, danger = dng, distance = dist, angleAbs = angle,
          minFrontDist = mfd, pseudoContactScore = pseudo, lockPriority = lockPrio,
          lockHoldWindow = lockHold, reliableDirectionCue = reliable, sig_noContactMs = ncMs,
          sig_noContactCycles = ncCycles, reacquireActive = reacq, sig_reacquireTurnDir = turnDir \<rparr>)"

subsection \<open>Strategy mode: context override\<close>

record modeResolved =
  mr_mode :: strategy_mode
  mr_corrected :: bool
  mr_reason :: string

definition resolveStrategyModeWithContext :: "strategy_mode \<Rightarrow> signal \<Rightarrow> strategy_mode option \<Rightarrow> modeResolved" where
  "resolveStrategyModeWithContext rawMode sg previous =
    (if danger sg \<and> rawMode \<noteq> ESCAPE_RECOVERY then
       \<lparr> mr_mode = ESCAPE_RECOVERY, mr_corrected = True, mr_reason = ''danger_context_forced_escape'' \<rparr>
     else if rawMode \<noteq> TARGET_LOCK \<and> (lockPriority sg \<or> lockHoldWindow sg) then
       \<lparr> mr_mode = TARGET_LOCK, mr_corrected = True,
         mr_reason = (if lockPriority sg then ''lock_priority_window_promote'' else ''lock_hold_window_promote'') \<rparr>
     else if reacquireActive sg \<and> rawMode = TARGET_LOCK \<and> \<not> strongTargetCue sg then
       \<lparr> mr_mode = MEMORY_EXPLORE, mr_corrected = True, mr_reason = ''prolonged_no_contact_reacquire'' \<rparr>
     else if rawMode = TARGET_LOCK \<and> weakTargetCue sg \<and> \<not> lockPriority sg \<and> \<not> lockHoldWindow sg then
       \<lparr> mr_mode = MEMORY_EXPLORE, mr_corrected = True, mr_reason = ''weak_target_cue_demote_to_explore'' \<rparr>
     else if rawMode \<noteq> TARGET_LOCK \<and> \<not> danger sg \<and> strongTargetCue sg then
       \<lparr> mr_mode = TARGET_LOCK, mr_corrected = True, mr_reason = ''strong_target_cue_promote_to_lock'' \<rparr>
     else if previous = Some TARGET_LOCK \<and> lockHoldWindow sg \<and> rawMode \<noteq> TARGET_LOCK then
       \<lparr> mr_mode = TARGET_LOCK, mr_corrected = True, mr_reason = ''previous_lock_hold_window'' \<rparr>
     else \<lparr> mr_mode = rawMode, mr_corrected = False, mr_reason = [] \<rparr>)"

subsection \<open>Strategy mode: hysteresis stabilizer\<close>

record hysteresis =
  hy_mode :: strategy_mode
  hy_held :: bool
  hy_forced :: bool
  hy_reason :: string

definition clearPending :: "smoothingState \<Rightarrow> smoothingState" where
  "clearPending st = st\<lparr>pendingStrategyMode := None, pendingStrategySince := 0, pendingStrategyVotes := 0\<rparr>"

definition stabilizeStrategyModeWithHysteresis ::
    "int \<Rightarrow> smoothingState \<Rightarrow> strategy_mode \<Rightarrow> signal \<Rightarrow> smoothingState \<times> hysteresis" where
  "stabilizeStrategyModeWithHysteresis now state desiredMode sg =
    (let previousMode = lastStrategyMode state in
     if previousMode = None \<or> Some desiredMode = previousMode then
       (let st1 = (if modeHoldRemaining state > 0
                   then state\<lparr>modeHoldRemaining := modeHoldRemaining state - 1\<rparr> else state);
            st2 = (if previousMode = Some TARGET_LOCK \<and> lockHoldWindow sg \<and> \<not> danger sg
                   then st1\<lparr>targetLockHoldRemaining := max (targetLockHoldRemaining st1) TARGET_LOCK_HOLD_MIN_CYCLES\<rparr>
                   else if targetLockHoldRemaining st1 > 0 \<and> (danger sg \<or> \<not> lockHoldWindow sg)
                   then st1\<lparr>targetLockHoldRemaining := targetLockHoldRemaining st1 - 1\<rparr>
                   else st1)
        in (clearPending st2,
            \<lparr> hy_mode = desiredMode, hy_held = False, hy_forced = False, hy_reason = ''stable'' \<rparr>))
     else
       (let criticalOverride = (danger sg \<or> minFrontDist sg < CRITICAL_FRONT_DIST);
            strongLockPromotion = (desiredMode = TARGET_LOCK \<and> \<not> danger sg \<and> strongTargetCue sg
                                    \<and> pseudoContactScore sg \<ge> 0.7 \<and> minFrontDist sg > 2.6);
            lockPriorityPromotion = (desiredMode = TARGET_LOCK \<and> \<not> danger sg \<and> lockPriority sg
                                    \<and> minFrontDist sg > 2.3);
            targetLockHoldActive = (previousMode = Some TARGET_LOCK \<and> \<not> danger sg
                                    \<and> minFrontDist sg > TARGET_LOCK_HOLD_MIN_FRONT_DIST
                                    \<and> (lockHoldWindow sg \<or> targetLockHoldRemaining state > 0))
        in if targetLockHoldActive \<and> desiredMode \<noteq> TARGET_LOCK then
             ((clearPending state)\<lparr>targetLockHoldRemaining :=
                  (if lockHoldWindow sg then TARGET_LOCK_HOLD_MIN_CYCLES
                   else max 0 (targetLockHoldRemaining state - 1))\<rparr>,
              \<lparr> hy_mode = TARGET_LOCK, hy_held = True, hy_forced = True, hy_reason = ''target_lock_hold_window'' \<rparr>)
           else if criticalOverride \<or> strongLockPromotion \<or> lockPriorityPromotion then
             ((clearPending state)\<lparr>lastModeSwitchAt := now, modeHoldRemaining := MODE_SWITCH_MIN_HOLD_CYCLES,
                  targetLockHoldRemaining := (if desiredMode = TARGET_LOCK then TARGET_LOCK_HOLD_MIN_CYCLES else 0)\<rparr>,
              \<lparr> hy_mode = desiredMode, hy_held = False, hy_forced = True,
                hy_reason = (if criticalOverride then ''critical_context_override''
                             else if lockPriorityPromotion then ''lock_priority_promotion''
                             else ''strong_lock_promotion'') \<rparr>)
           else if lastModeSwitchAt state > 0 \<and> now - lastModeSwitchAt state < MODE_SWITCH_COOLDOWN_MS then
             (state, \<lparr> hy_mode = the previousMode, hy_held = True, hy_forced = False,
                       hy_reason = ''switch_cooldown_hold'' \<rparr>)
           else if modeHoldRemaining state > 0 then
             (state\<lparr>modeHoldRemaining := modeHoldRemaining state - 1\<rparr>,
              \<lparr> hy_mode = the previousMode, hy_held = True, hy_forced = False,
                hy_reason = ''minimum_mode_hold'' \<rparr>)
           else if pendingStrategyMode state \<noteq> Some desiredMode then
             (state\<lparr>pendingStrategyMode := Some desiredMode, pendingStrategySince := now,
                    pendingStrategyVotes := 1\<rparr>,
              \<lparr> hy_mode = the previousMode, hy_held = True, hy_forced = False,
                hy_reason = ''pending_switch_vote'' \<rparr>)
           else
             (let votes = pendingStrategyVotes state + 1;
                  pendingMs = now - pendingStrategySince state
              in if votes \<ge> MODE_SWITCH_MIN_VOTES \<and> pendingMs \<ge> MODE_SWITCH_MIN_DWELL_MS then
                   ((clearPending (state\<lparr>pendingStrategyVotes := votes\<rparr>))\<lparr>lastModeSwitchAt := now,
                        modeHoldRemaining := MODE_SWITCH_MIN_HOLD_CYCLES,
                        targetLockHoldRemaining := (if desiredMode = TARGET_LOCK then TARGET_LOCK_HOLD_MIN_CYCLES else 0)\<rparr>,
                    \<lparr> hy_mode = desiredMode, hy_held = False, hy_forced = False,
                      hy_reason = ''hysteresis_confirmed_switch'' \<rparr>)
                 else
                   (state\<lparr>pendingStrategyVotes := votes\<rparr>,
                    \<lparr> hy_mode = the previousMode, hy_held = True, hy_forced = False,
                      hy_reason = ''pending_switch_wait'' \<rparr>))))"

subsection \<open>Skill resolution and cadence\<close>

record skillResolved =
  sr_skill :: skill
  sr_overrideReason :: string
  sr_approachBias :: bool
  sr_strictScanCondition :: bool

text \<open>
  The requested skill reaches \<^verbatim>\<open>resolveSkillWithContext\<close> and
  \<^verbatim>\<open>enforceSkillCadence\<close> already normalised to one of the five names, on which
  \<^verbatim>\<open>normalizeSkillName\<close> is the identity; the sector likewise.
\<close>

definition resolveSkillWithContext ::
    "skill \<Rightarrow> strategy_mode \<Rightarrow> sector \<Rightarrow> signal \<Rightarrow> sensorData \<Rightarrow> skillResolved" where
  "resolveSkillWithContext requestedSkill strategyMode strategySector sg sd =
    (let safeForward = (frontArc sd > 2.55);
         approachBias = (\<not> danger sg \<and> safeForward
                          \<and> (hasTargetContact sg
                               \<or> (pseudoContactScore sg \<ge> 0.56 \<and> angleAbs sg \<le> 62 \<and> distance sg \<le> 26)));
         strictScanCondition = (reacquireActive sg \<and> weakTargetCue sg \<and> \<not> hasTargetContact sg
                          \<and> pseudoContactScore sg < 0.46 \<and> distance sg > 18 \<and> angleAbs sg > 18);
         (nextSkill, overrideReason) =
           (if strategyMode = ESCAPE_RECOVERY then
              (if requestedSkill \<noteq> BACKOFF_AND_TURN then (BACKOFF_AND_TURN, ''escape_forces_backoff'')
               else (requestedSkill, []))
            else if strategyMode = TARGET_LOCK then
              (if \<not> safeForward \<and> requestedSkill \<noteq> BACKOFF_AND_TURN
                 then (BACKOFF_AND_TURN, ''target_lock_front_blocked_escape'')
               else if safeForward \<and> requestedSkill \<noteq> APPROACH_TARGET
                 then (APPROACH_TARGET, ''target_lock_forces_approach'')
               else (requestedSkill, []))
            else if requestedSkill = SCAN_SECTOR \<and> \<not> strictScanCondition then
              (if approachBias then (APPROACH_TARGET, ''scan_demoted_to_approach'')
               else (MOVE_TO_FRONTIER, ''scan_demoted_to_frontier''))
            else if requestedSkill = SCAN_SECTOR \<and> strictScanCondition \<and> safeForward
                    \<and> pseudoContactScore sg \<ge> 0.42 then
              (MOVE_TO_FRONTIER, ''scan_demoted_due_to_mid_target_cue'')
            else if (requestedSkill = MOVE_TO_FRONTIER \<or> requestedSkill = SCAN_SECTOR) \<and> approachBias then
              (APPROACH_TARGET, ''approach_bias_from_target_cue'')
            else (requestedSkill, []));
         (nextSkill2, overrideReason2) =
           (if nextSkill = APPROACH_TARGET \<and> strategySector = SecB \<and> \<not> hasTargetContact sg
            then (MOVE_TO_FRONTIER, ''avoid_backward_approach'')
            else (nextSkill, overrideReason))
     in \<lparr> sr_skill = nextSkill2, sr_overrideReason = overrideReason2,
          sr_approachBias = approachBias, sr_strictScanCondition = strictScanCondition \<rparr>)"

record cadence =
  cd_skill :: skill
  cd_overrideReason :: string

text \<open>
  \<open>forwardApproachReady\<close> is the local of that name in \<^verbatim>\<open>enforceSkillCadence\<close>.
  The counters the function returns beside the skill are the fields of the new state.
\<close>

definition forwardApproachReady :: "signal \<Rightarrow> sensorData \<Rightarrow> bool" where
  "forwardApproachReady sg sd =
    (\<not> danger sg \<and> frontArc sd > 2.65
      \<and> (hasTargetContact sg
           \<or> (pseudoContactScore sg \<ge> 0.52 \<and> distance sg \<le> 24 \<and> angleAbs sg \<le> 65)))"

definition enforceSkillCadence ::
    "skill \<Rightarrow> strategy_mode \<Rightarrow> signal \<Rightarrow> sensorData \<Rightarrow> bool \<Rightarrow> smoothingState \<Rightarrow> smoothingState \<times> cadence" where
  "enforceSkillCadence requestedSkill strategyMode sg sd approachBias state =
    (let previousSkill = normalizeSkillName (lastSkillName state) MOVE_TO_FRONTIER;
         ready = forwardApproachReady sg sd;
         (skill1, reason1) =
           (if requestedSkill = SCAN_SECTOR \<and> scanBurstCount state \<ge> SKILL_BURST_SCAN_LIMIT \<and> \<not> danger sg then
              (if ready then APPROACH_TARGET else MOVE_TO_FRONTIER, ''scan_burst_limited'')
            else if requestedSkill = BACKOFF_AND_TURN \<and> backoffBurstCount state \<ge> SKILL_BURST_BACKOFF_LIMIT
                    \<and> strategyMode \<noteq> ESCAPE_RECOVERY \<and> \<not> danger sg
                    \<and> frontArc sd > SKILL_BURST_RELEASE_FRONT_DIST then
              (if ready \<or> approachBias then APPROACH_TARGET else MOVE_TO_FRONTIER, ''backoff_burst_limited'')
            else (requestedSkill, []));
         (skill2, hold2, reason2) =
           (if skill1 \<noteq> APPROACH_TARGET \<and> approachHoldRemaining state > 0
               \<and> strategyMode \<noteq> ESCAPE_RECOVERY \<and> ready then
              (APPROACH_TARGET, max 0 (approachHoldRemaining state - 1),
               (if reason1 \<noteq> [] then reason1 @ ''|approach_hold_lock'' else ''approach_hold_lock''))
            else (skill1, approachHoldRemaining state, reason1));
         hold3 =
           (if skill2 = APPROACH_TARGET then
              (if previousSkill \<noteq> APPROACH_TARGET then max hold2 (APPROACH_MIN_HOLD_CYCLES - 1)
               else if hold2 > 0 then hold2 - 1 else hold2)
            else if \<not> ready \<or> strategyMode = ESCAPE_RECOVERY \<or> danger sg then 0
            else hold2)
     in (state\<lparr>approachHoldRemaining := hold3,
               scanBurstCount := (if skill2 = SCAN_SECTOR then scanBurstCount state + 1 else 0),
               backoffBurstCount := (if skill2 = BACKOFF_AND_TURN then backoffBurstCount state + 1 else 0)\<rparr>,
         \<lparr> cd_skill = skill2, cd_overrideReason = reason2 \<rparr>))"

subsection \<open>One decision cycle: mode and skill\<close>

text \<open>
  The part of \<^verbatim>\<open>getDrivingDecision\<close> that resolves the strategy mode and the skill of a
  cycle. Before the model is asked, contact tracking runs at clock value \<open>ci_tick\<close> and the
  context signal is computed. The call of the model then has one of two outcomes.

  \<^item> The reply is usable (\<open>ci_failure = None\<close>): \<open>ci_mode\<close>, \<open>ci_skill\<close> and \<open>ci_sector\<close>
    are the model's requests after \<^verbatim>\<open>normalizeStrategyMode\<close>, \<^verbatim>\<open>normalizeSkillName\<close>
    and the sector check, and \<open>resolveCycle\<close> is the body of the \<^verbatim>\<open>try\<close> block: the context
    override, the stabilizer at clock value \<open>ci_now\<close>, skill resolution and cadence, and
    the write-back of the mode and the skill to the session state.

  \<^item> The call fails (\<open>ci_failure = Some f\<close>): the request timed out (\<^verbatim>\<open>AbortError\<close>), the
    request failed in another way, or no JSON object could be recovered from the reply
    (\<^verbatim>\<open>UNPARSEABLE_MODEL_OUTPUT\<close>). \<open>fallbackCycle\<close> is the body of the two \<^verbatim>\<open>catch\<close>
    blocks, which differ in their texts only: the mode is the expected mode of the
    context signal (never empty, so the \<^verbatim>\<open>|| fallbackMode\<close> alternative is not taken),
    it is written to the session state, and the skill is HOLD_POSITION. The stabilizer
    and the cadence are not called, the session's last skill is not written, and
    \<open>ci_mode\<close>, \<open>ci_skill\<close> and \<open>ci_sector\<close> are not read; \<open>ci_now\<close> is the time at which
    the failure is handled.
\<close>

datatype failure = API_TIMEOUT | API_ERROR | PARSER_ERROR

record cycleInput =
  ci_tick :: int
  ci_now :: int
  ci_sensor :: sensorData
  ci_mode :: strategy_mode
  ci_skill :: skill
  ci_sector :: sector
  ci_failure :: "failure option"

record cycleResolved =
  cr_time :: int
  cr_previousMode :: "strategy_mode option"
  cr_previousSkill :: skill
  cr_signal :: signal
  cr_modeResolved :: modeResolved
  cr_hysteresis :: hysteresis
  cr_skillResolved :: skillResolved
  cr_cadence :: cadence

definition resolveCycle :: "smoothingState \<Rightarrow> cycleInput \<Rightarrow> smoothingState \<times> cycleResolved" where
  "resolveCycle state ci =
    (let (st1, contact) = updateContactTracking (ci_tick ci) state (ci_sensor ci);
         sg = inferContextModeSignal (ci_sensor ci) (Some contact);
         previousStrategyMode = lastStrategyMode st1;
         mr = resolveStrategyModeWithContext (ci_mode ci) sg previousStrategyMode;
         (st2, hy) = stabilizeStrategyModeWithHysteresis (ci_now ci) st1 (mr_mode mr) sg;
         sr = resolveSkillWithContext (ci_skill ci) (hy_mode hy) (ci_sector ci) sg (ci_sensor ci);
         (st3, cd) = enforceSkillCadence (sr_skill sr) (hy_mode hy) sg (ci_sensor ci) (sr_approachBias sr) st2
     in (st3\<lparr>lastStrategyMode := Some (hy_mode hy), lastSkillName := Some (cd_skill cd)\<rparr>,
         \<lparr> cr_time = ci_now ci, cr_previousMode = previousStrategyMode,
           cr_previousSkill = normalizeSkillName (lastSkillName state) MOVE_TO_FRONTIER,
           cr_signal = sg, cr_modeResolved = mr, cr_hysteresis = hy,
           cr_skillResolved = sr, cr_cadence = cd \<rparr>))"

record cycleFallback =
  cf_time :: int
  cf_previousMode :: "strategy_mode option"
  cf_signal :: signal
  cf_mode :: strategy_mode
  cf_skill :: skill
  cf_failure :: failure

definition fallbackCycle :: "smoothingState \<Rightarrow> cycleInput \<Rightarrow> failure \<Rightarrow> smoothingState \<times> cycleFallback" where
  "fallbackCycle state ci f =
    (let (st1, contact) = updateContactTracking (ci_tick ci) state (ci_sensor ci);
         sg = inferContextModeSignal (ci_sensor ci) (Some contact);
         previousStrategyMode = lastStrategyMode st1;
         failMode = expectedMode sg
     in (st1\<lparr>lastStrategyMode := Some failMode\<rparr>,
         \<lparr> cf_time = ci_now ci, cf_previousMode = previousStrategyMode, cf_signal = sg,
           cf_mode = failMode, cf_skill = HOLD_POSITION, cf_failure = f \<rparr>))"

text \<open>
  A decision cycle, whatever the outcome of the call, and what its Decision Output
  reports: the strategy mode, the skill, and the mode of the session before the cycle.
\<close>

datatype cycleOutcome = Resolved cycleResolved | Fallback cycleFallback

definition decisionCycle :: "smoothingState \<Rightarrow> cycleInput \<Rightarrow> smoothingState \<times> cycleOutcome" where
  "decisionCycle state ci =
    (case ci_failure ci of
       None \<Rightarrow> (let (state', r) = resolveCycle state ci in (state', Resolved r))
     | Some f \<Rightarrow> (let (state', r) = fallbackCycle state ci f in (state', Fallback r)))"

fun outMode :: "cycleOutcome \<Rightarrow> strategy_mode" where
  "outMode (Resolved r) = hy_mode (cr_hysteresis r)"
| "outMode (Fallback r) = cf_mode r"

fun outSkill :: "cycleOutcome \<Rightarrow> skill" where
  "outSkill (Resolved r) = cd_skill (cr_cadence r)"
| "outSkill (Fallback r) = cf_skill r"

fun outPreviousMode :: "cycleOutcome \<Rightarrow> strategy_mode option" where
  "outPreviousMode (Resolved r) = cr_previousMode r"
| "outPreviousMode (Fallback r) = cf_previousMode r"

fun outTime :: "cycleOutcome \<Rightarrow> int" where
  "outTime (Resolved r) = cr_time r"
| "outTime (Fallback r) = cf_time r"

text \<open>A run of decision cycles: the session state is passed from each cycle to the next.\<close>

fun runCycles :: "smoothingState \<Rightarrow> cycleInput list \<Rightarrow> cycleOutcome list" where
  "runCycles state [] = []"
| "runCycles state (ci # rest) =
     (let (state', r) = decisionCycle state ci in r # runCycles state' rest)"

subsection \<open>Sensor snapshots of the start-up self-check\<close>

text \<open>
  The three scenario snapshots of the start-up check in the application
  (\<^verbatim>\<open>scenarioCatalog\<close>): no ray reports the target.
\<close>

definition sensorLockOpenApproach :: sensorData where
  "sensorLockOpenApproach = \<lparr> front = Some 9, leftDiag = Some 9, rightDiag = Some 9, left = Some 9,
     right = Some 9, backRay = Some 9, backLeft = Some 9, backRight = Some 9, isStuck = False,
     targetHits = [], angleToTarget = Some 0, distanceToTarget = Some 8, headingDeg = Some 0,
     worldX = Some 0, worldZ = Some 0, sensorRange = None \<rparr>"

definition sensorEscapeFrontBlocked :: sensorData where
  "sensorEscapeFrontBlocked = \<lparr> front = Some 1.4, leftDiag = Some 1.7, rightDiag = Some 1.6,
     left = Some 2.2, right = Some 2.1, backRay = Some 6.0, backLeft = Some 5.0, backRight = Some 5.2,
     isStuck = True, targetHits = [], angleToTarget = Some 5, distanceToTarget = Some 10,
     headingDeg = Some 0, worldX = Some 0, worldZ = Some 0, sensorRange = None \<rparr>"

definition sensorExploreNoTarget :: sensorData where
  "sensorExploreNoTarget = \<lparr> front = Some 9.8, leftDiag = Some 9.8, rightDiag = Some 9.8,
     left = Some 9.8, right = Some 9.8, backRay = Some 9.8, backLeft = Some 9.8, backRight = Some 9.8,
     isStuck = False, targetHits = [], angleToTarget = Some 155, distanceToTarget = Some 60,
     headingDeg = Some 0, worldX = Some 0, worldZ = Some 0, sensorRange = None \<rparr>"

subsection \<open>Transition label\<close>

text \<open>
  \<open>byModeChange\<close> is the local of that name in \<^verbatim>\<open>deriveStrategyTransition\<close>: the cycle
  changed the mode of the session. The transition is \<open>True\<close> for SWITCH and \<open>False\<close> for
  HOLD; \<open>llmSwitch\<close> tells whether the model's own label is SWITCH.
\<close>

definition byModeChange :: "strategy_mode option \<Rightarrow> strategy_mode \<Rightarrow> bool" where
  "byModeChange previousMode currentMode = (previousMode \<noteq> None \<and> previousMode \<noteq> Some currentMode)"

definition deriveStrategyTransition :: "bool \<Rightarrow> strategy_mode option \<Rightarrow> strategy_mode \<Rightarrow> bool \<Rightarrow> bool" where
  "deriveStrategyTransition llmSwitch previousMode currentMode corrected =
     (if corrected then True
      else if byModeChange previousMode currentMode then True
      else llmSwitch)"

subsection \<open>A concrete run: stuck, then open ground, then a near target off axis\<close>

text \<open>
  A snapshot with every ray at 9 and the target 5 m away at 49 degrees, not hit by any
  ray, and a run of four cycles: one on the blocked start-up snapshot, two on the open
  one (1.5 s apart), one on the near-target snapshot half a second later. In each cycle
  the model asks for the mode and skill that fit the snapshot.
\<close>

definition sensorNearTargetOffAxis :: sensorData where
  "sensorNearTargetOffAxis = \<lparr> front = Some 9, leftDiag = Some 9, rightDiag = Some 9, left = Some 9,
     right = Some 9, backRay = Some 9, backLeft = Some 9, backRight = Some 9, isStuck = False,
     targetHits = [], angleToTarget = Some 49, distanceToTarget = Some 5, headingDeg = Some 0,
     worldX = Some 0, worldZ = Some 0, sensorRange = None \<rparr>"

definition cycleStuck :: cycleInput where
  "cycleStuck = \<lparr> ci_tick = 1000, ci_now = 1300, ci_sensor = sensorEscapeFrontBlocked,
     ci_mode = ESCAPE_RECOVERY, ci_skill = BACKOFF_AND_TURN, ci_sector = SecF, ci_failure = None \<rparr>"


definition cycleOpenFirst :: cycleInput where
  "cycleOpenFirst = \<lparr> ci_tick = 2000, ci_now = 2300, ci_sensor = sensorExploreNoTarget,
     ci_mode = MEMORY_EXPLORE, ci_skill = MOVE_TO_FRONTIER, ci_sector = SecF, ci_failure = None \<rparr>"

definition cycleOpenSecond :: cycleInput where
  "cycleOpenSecond = \<lparr> ci_tick = 3500, ci_now = 3800, ci_sensor = sensorExploreNoTarget,
     ci_mode = MEMORY_EXPLORE, ci_skill = MOVE_TO_FRONTIER, ci_sector = SecF, ci_failure = None \<rparr>"

definition cycleNearTarget :: cycleInput where
  "cycleNearTarget = \<lparr> ci_tick = 4000, ci_now = 4300, ci_sensor = sensorNearTargetOffAxis,
     ci_mode = TARGET_LOCK, ci_skill = APPROACH_TARGET, ci_sector = SecF, ci_failure = None \<rparr>"

definition cyclesEscapeExploreLock :: "cycleInput list" where
  "cyclesEscapeExploreLock = [cycleStuck, cycleOpenFirst, cycleOpenSecond, cycleNearTarget]"

text \<open>The session state after a run of cycles.\<close>

fun finalState :: "smoothingState \<Rightarrow> cycleInput list \<Rightarrow> smoothingState" where
  "finalState state [] = state"
| "finalState state (ci # rest) = finalState (fst (decisionCycle state ci)) rest"

subsection \<open>Names for the stabilizer's conditions and the states of the concrete run\<close>

text \<open>
  \<open>stabLockHold\<close> is \<^verbatim>\<open>targetLockHoldActive && desiredMode !== "TARGET_LOCK"\<close> and
  \<open>stabForcedOverride\<close> is
  \<^verbatim>\<open>criticalOverride || strongLockPromotion || lockPriorityPromotion\<close> of
  \<^verbatim>\<open>stabilizeStrategyModeWithHysteresis\<close>; \<open>modeSwitched\<close> says that a cycle changed the
  mode of the session.
\<close>

definition stabForcedOverride :: "strategy_mode \<Rightarrow> signal \<Rightarrow> bool" where
  "stabForcedOverride d sg =
     ((danger sg \<or> minFrontDist sg < CRITICAL_FRONT_DIST)
      \<or> (d = TARGET_LOCK \<and> \<not> danger sg \<and> strongTargetCue sg \<and> pseudoContactScore sg \<ge> 0.7 \<and> minFrontDist sg > 2.6)
      \<or> (d = TARGET_LOCK \<and> \<not> danger sg \<and> lockPriority sg \<and> minFrontDist sg > 2.3))"

definition stabLockHold :: "smoothingState \<Rightarrow> strategy_mode \<Rightarrow> signal \<Rightarrow> bool" where
  "stabLockHold st d sg =
     ((lastStrategyMode st = Some TARGET_LOCK \<and> \<not> danger sg \<and> minFrontDist sg > TARGET_LOCK_HOLD_MIN_FRONT_DIST
        \<and> (lockHoldWindow sg \<or> targetLockHoldRemaining st > 0)) \<and> d \<noteq> TARGET_LOCK)"

abbreviation modeSwitched :: "cycleResolved \<Rightarrow> bool" where
  "modeSwitched r \<equiv> byModeChange (cr_previousMode r) (hy_mode (cr_hysteresis r))"

text \<open>
  The same for a cycle of either outcome: the mode the cycle reports differs from the
  mode of the session before it. This is the condition under which the Decision Output
  of a failed cycle carries the transition SWITCH
  (\<^verbatim>\<open>deriveStrategyTransition("HOLD", previousStrategyMode, failMode, false)\<close>).
\<close>

fun outSignal :: "cycleOutcome \<Rightarrow> signal" where
  "outSignal (Resolved r) = cr_signal r"
| "outSignal (Fallback r) = cf_signal r"

definition outSwitched :: "cycleOutcome \<Rightarrow> bool" where
  "outSwitched r = byModeChange (outPreviousMode r) (outMode r)"

text \<open>
  The stabilizer's forced overrides, read off a cycle's outcome: a usable cycle whose
  stabilizer result is forced with one of the three override reasons.
\<close>

fun outForcedOverride :: "cycleOutcome \<Rightarrow> bool" where
  "outForcedOverride (Resolved r) =
     (hy_forced (cr_hysteresis r)
      \<and> (hy_reason (cr_hysteresis r) = ''critical_context_override''
           \<or> hy_reason (cr_hysteresis r) = ''lock_priority_promotion''
           \<or> hy_reason (cr_hysteresis r) = ''strong_lock_promotion''))"
| "outForcedOverride (Fallback r) = False"

fun isFallback :: "cycleOutcome \<Rightarrow> bool" where
  "isFallback (Resolved r) = False"
| "isFallback (Fallback r) = True"

definition stateAfterStuck :: smoothingState where
  "stateAfterStuck = \<lparr> lastSteering = 0, lastStrategyMode = Some ESCAPE_RECOVERY, lastModeSwitchAt = 0,
     pendingStrategyMode = None, pendingStrategySince = 0, pendingStrategyVotes = 0,
     noContactMs = 1000, noContactCycles = 1, lastContactAt = 0, lastTickAt = 1000,
     reacquireTurnDir = 1, lastReacquireFlipAt = 0, lastSkillName = Some BACKOFF_AND_TURN,
     approachHoldRemaining = 0, scanBurstCount = 0, backoffBurstCount = 1,
     modeHoldRemaining = 0, targetLockHoldRemaining = 0 \<rparr>"

definition stateAfterOpenFirst :: smoothingState where
  "stateAfterOpenFirst = \<lparr> lastSteering = 0, lastStrategyMode = Some ESCAPE_RECOVERY, lastModeSwitchAt = 0,
     pendingStrategyMode = Some MEMORY_EXPLORE, pendingStrategySince = 2300, pendingStrategyVotes = 1,
     noContactMs = 2000, noContactCycles = 2, lastContactAt = 0, lastTickAt = 2000,
     reacquireTurnDir = 1, lastReacquireFlipAt = 0, lastSkillName = Some BACKOFF_AND_TURN,
     approachHoldRemaining = 0, scanBurstCount = 0, backoffBurstCount = 2,
     modeHoldRemaining = 0, targetLockHoldRemaining = 0 \<rparr>"

definition stateAfterOpenSecond :: smoothingState where
  "stateAfterOpenSecond = \<lparr> lastSteering = 0, lastStrategyMode = Some MEMORY_EXPLORE, lastModeSwitchAt = 3800,
     pendingStrategyMode = None, pendingStrategySince = 0, pendingStrategyVotes = 0,
     noContactMs = 3500, noContactCycles = 3, lastContactAt = 0, lastTickAt = 3500,
     reacquireTurnDir = 1, lastReacquireFlipAt = 0, lastSkillName = Some MOVE_TO_FRONTIER,
     approachHoldRemaining = 0, scanBurstCount = 0, backoffBurstCount = 0,
     modeHoldRemaining = 2, targetLockHoldRemaining = 0 \<rparr>"

text \<open>A snapshot in open ground with the target straight ahead at 20.1 m, not hit by any ray.\<close>

definition sensorTargetMidRange :: sensorData where
  "sensorTargetMidRange = \<lparr> front = Some 9, leftDiag = Some 9, rightDiag = Some 9, left = Some 9,
     right = Some 9, backRay = Some 9, backLeft = Some 9, backRight = Some 9, isStuck = False,
     targetHits = [], angleToTarget = Some 0, distanceToTarget = Some 20.1, headingDeg = Some 0,
     worldX = Some 0, worldZ = Some 0, sensorRange = None \<rparr>"

subsection \<open>A concrete run with a failed cycle\<close>

text \<open>
  Four cycles: the blocked start-up snapshot with a usable reply; the open snapshot with
  no target in reach, on which the call of the model times out; and two cycles, 1.4 s
  apart, with the target straight ahead at 20.1 m, in which the model asks for
  TARGET_LOCK and APPROACH_TARGET. The states are those after the second and the third
  cycle.
\<close>

definition cycleOpenFailed :: cycleInput where
  "cycleOpenFailed = cycleOpenFirst\<lparr>ci_failure := Some API_TIMEOUT\<rparr>"

definition cycleLockVote :: cycleInput where
  "cycleLockVote = \<lparr> ci_tick = 2400, ci_now = 2500, ci_sensor = sensorTargetMidRange,
     ci_mode = TARGET_LOCK, ci_skill = APPROACH_TARGET, ci_sector = SecF, ci_failure = None \<rparr>"

definition cycleLockConfirm :: cycleInput where
  "cycleLockConfirm = cycleLockVote\<lparr>ci_tick := 3800, ci_now := 3900\<rparr>"

definition cyclesFallbackThenConfirm :: "cycleInput list" where
  "cyclesFallbackThenConfirm = [cycleStuck, cycleOpenFailed, cycleLockVote, cycleLockConfirm]"

definition stateAfterOpenFailed :: smoothingState where
  "stateAfterOpenFailed = \<lparr> lastSteering = 0, lastStrategyMode = Some MEMORY_EXPLORE, lastModeSwitchAt = 0,
     pendingStrategyMode = None, pendingStrategySince = 0, pendingStrategyVotes = 0,
     noContactMs = 2000, noContactCycles = 2, lastContactAt = 0, lastTickAt = 2000,
     reacquireTurnDir = 1, lastReacquireFlipAt = 0, lastSkillName = Some BACKOFF_AND_TURN,
     approachHoldRemaining = 0, scanBurstCount = 0, backoffBurstCount = 1,
     modeHoldRemaining = 0, targetLockHoldRemaining = 0 \<rparr>"

definition stateAfterLockVote :: smoothingState where
  "stateAfterLockVote = \<lparr> lastSteering = 0, lastStrategyMode = Some MEMORY_EXPLORE, lastModeSwitchAt = 0,
     pendingStrategyMode = Some TARGET_LOCK, pendingStrategySince = 2500, pendingStrategyVotes = 1,
     noContactMs = 2400, noContactCycles = 3, lastContactAt = 0, lastTickAt = 2400,
     reacquireTurnDir = 1, lastReacquireFlipAt = 0, lastSkillName = Some APPROACH_TARGET,
     approachHoldRemaining = 2, scanBurstCount = 0, backoffBurstCount = 0,
     modeHoldRemaining = 0, targetLockHoldRemaining = 0 \<rparr>"

subsection \<open>Concrete runs for the cadence\<close>


definition cycleApproachRequested :: cycleInput where
  "cycleApproachRequested = \<lparr> ci_tick = 1000, ci_now = 1300, ci_sensor = sensorExploreNoTarget,
     ci_mode = MEMORY_EXPLORE, ci_skill = APPROACH_TARGET, ci_sector = SecF, ci_failure = None \<rparr>"

definition cycleFrontierRequested :: cycleInput where
  "cycleFrontierRequested = \<lparr> ci_tick = 2000, ci_now = 2300, ci_sensor = sensorTargetMidRange,
     ci_mode = MEMORY_EXPLORE, ci_skill = MOVE_TO_FRONTIER, ci_sector = SecF, ci_failure = None \<rparr>"


definition stateAfterApproachRequested :: smoothingState where
  "stateAfterApproachRequested = \<lparr> lastSteering = 0, lastStrategyMode = Some MEMORY_EXPLORE, lastModeSwitchAt = 0,
     pendingStrategyMode = None, pendingStrategySince = 0, pendingStrategyVotes = 0,
     noContactMs = 1000, noContactCycles = 1, lastContactAt = 0, lastTickAt = 1000,
     reacquireTurnDir = 1, lastReacquireFlipAt = 0, lastSkillName = Some APPROACH_TARGET,
     approachHoldRemaining = 2, scanBurstCount = 0, backoffBurstCount = 0,
     modeHoldRemaining = 0, targetLockHoldRemaining = 0 \<rparr>"

text \<open>
  Further cycles for the approach hold: the second cycle of the run above once more a
  second later; the same cycle when the call of the model fails; and the blocked
  start-up snapshot as the second cycle. \<open>stateAfterApproachHeld\<close> is the state after
  the two cycles of \<open>cyclesApproachHeld\<close>.
\<close>

definition cycleFrontierAgain :: cycleInput where
  "cycleFrontierAgain = cycleFrontierRequested\<lparr>ci_tick := 3000, ci_now := 3300\<rparr>"

definition cycleFrontierFailed :: cycleInput where
  "cycleFrontierFailed = cycleFrontierRequested\<lparr>ci_failure := Some API_ERROR\<rparr>"

definition cycleApproachAgain :: cycleInput where
  "cycleApproachAgain = cycleFrontierRequested\<lparr>ci_skill := APPROACH_TARGET\<rparr>"

definition cyclesApproachReleased :: "cycleInput list" where
  "cyclesApproachReleased = [cycleApproachRequested, cycleFrontierRequested, cycleFrontierAgain]"

definition cyclesApproachAsked :: "cycleInput list" where
  "cyclesApproachAsked = [cycleApproachRequested, cycleApproachAgain, cycleFrontierAgain]"



definition stateAfterApproachHeld :: smoothingState where
  "stateAfterApproachHeld = \<lparr> lastSteering = 0, lastStrategyMode = Some MEMORY_EXPLORE, lastModeSwitchAt = 0,
     pendingStrategyMode = None, pendingStrategySince = 0, pendingStrategyVotes = 0,
     noContactMs = 2000, noContactCycles = 2, lastContactAt = 0, lastTickAt = 2000,
     reacquireTurnDir = 1, lastReacquireFlipAt = 0, lastSkillName = Some APPROACH_TARGET,
     approachHoldRemaining = 0, scanBurstCount = 0, backoffBurstCount = 0,
     modeHoldRemaining = 0, targetLockHoldRemaining = 0 \<rparr>"

definition stateAfterApproachAsked :: smoothingState where
  "stateAfterApproachAsked = stateAfterApproachHeld\<lparr>approachHoldRemaining := 1\<rparr>"

section \<open>Memory-aware safety guard\<close>






text \<open>\<^verbatim>\<open>Math.round\<close>: the nearest integer, a tie going up.\<close>

definition Math_round :: "real \<Rightarrow> int" where
  "Math_round x = \<lfloor>x + 1 / 2\<rfloor>"

definition Math_atan2 :: "real \<Rightarrow> real \<Rightarrow> real" where
  "Math_atan2 y x =
     (if x > 0 then arctan (y / x)
      else if x < 0 \<and> y \<ge> 0 then arctan (y / x) + pi
      else if x < 0 \<and> y < 0 then arctan (y / x) - pi
      else if y > 0 then pi / 2
      else if y < 0 then - pi / 2
      else 0)"



record sectorSafetyEntry =
  ss_sector :: "sector option"
  ss_safeCount :: "real option"
  ss_noGoRatio :: "real option"

















section \<open>Spatial memory grid\<close>

text \<open>
  The exploration memory of \<^verbatim>\<open>createExplorationMemory\<close> (the module
  \<^verbatim>\<open>src/services/explorationMemory.js\<close>). A cell key is the pair of integer grid
  coordinates. The cell map keeps the insertion order of the JavaScript \<^verbatim>\<open>Map\<close>, which
  the pruning depends on: it is an association list with distinct keys, new cells added
  at the end. \<^verbatim>\<open>asNumber\<close> with its default fallback \<^verbatim>\<open>null\<close> is the identity on a
  \<open>real option\<close>; with a fallback it is \<open>asNum\<close>. The clock is an argument.
\<close>

definition clamp :: "real \<Rightarrow> real \<Rightarrow> real \<Rightarrow> real" where
  "clamp v lo hi = max lo (min hi v)"

text \<open>\<^verbatim>\<open>round(value, digits = 3)\<close> at three digits.\<close>

definition round3 :: "real \<Rightarrow> real" where
  "round3 v = real_of_int (Math_round (v * 1000)) / 1000"

record cell =
  visits :: int
  lastSeen :: int
  riskEMA :: real
  stuckCount :: int
  targetHitCount :: int
  targetMissCount :: int
  targetAbsenceEMA :: real
  lastTargetSeenAt :: int
  lastTargetMissAt :: int
  obstacleHits :: int
  outerWallHits :: int
  openHits :: int

definition newCell :: cell where
  "newCell = \<lparr> visits = 0, lastSeen = 0, riskEMA = 0, stuckCount = 0, targetHitCount = 0,
     targetMissCount = 0, targetAbsenceEMA = 0, lastTargetSeenAt = 0, lastTargetMissAt = 0,
     obstacleHits = 0, outerWallHits = 0, openHits = 0 \<rparr>"

record worldBounds =
  minX :: real
  maxX :: real
  minZ :: real
  maxZ :: real
  softMargin :: "real option"

type_synonym cellKey = "int \<times> int"

record memoryState =
  cellSize :: real
  mem_sensorRange :: real
  maxCells :: nat
  mem_worldBounds :: "worldBounds option"
  cells :: "(cellKey \<times> cell) list"
  path :: "(int \<times> int \<times> int) list"

definition toGrid :: "real \<Rightarrow> real \<Rightarrow> real \<Rightarrow> cellKey" where
  "toGrid x z csize = (\<lfloor>x / csize\<rfloor>, \<lfloor>z / csize\<rfloor>)"

definition toCellCenter :: "int \<Rightarrow> int \<Rightarrow> real \<Rightarrow> real \<times> real" where
  "toCellCenter ix iz csize = ((real_of_int ix + 0.5) * csize, (real_of_int iz + 0.5) * csize)"

definition getBoundsPenalty :: "real \<Rightarrow> real \<Rightarrow> worldBounds option \<Rightarrow> bool \<times> real" where
  "getBoundsPenalty x z bounds =
     (case bounds of
        None \<Rightarrow> (False, 0)
      | Some b \<Rightarrow>
          (let margin = (case softMargin b of Some m \<Rightarrow> m | None \<Rightarrow> 2.5);
               outside = (x < minX b \<or> x > maxX b \<or> z < minZ b \<or> z > maxZ b)
           in if outside then (True, 2.0)
              else (let edgeDist = min (x - minX b) (min (maxX b - x) (min (z - minZ b) (maxZ b - z)))
                    in (False, if edgeDist < margin then ((margin - edgeDist) / margin) * 0.55 else 0))))"

definition isInsideBounds :: "real \<Rightarrow> real \<Rightarrow> worldBounds option \<Rightarrow> bool" where
  "isInsideBounds x z bounds =
     (case bounds of None \<Rightarrow> True
      | Some b \<Rightarrow> x \<ge> minX b \<and> x \<le> maxX b \<and> z \<ge> minZ b \<and> z \<le> maxZ b)"

definition clampPointToBounds :: "real \<Rightarrow> real \<Rightarrow> worldBounds option \<Rightarrow> real \<times> real" where
  "clampPointToBounds x z bounds =
     (case bounds of None \<Rightarrow> (x, z)
      | Some b \<Rightarrow> (clamp x (minX b + 0.001) (maxX b - 0.001), clamp z (minZ b + 0.001) (maxZ b - 0.001)))"

definition isNearOuterBoundary :: "real \<Rightarrow> real \<Rightarrow> worldBounds option \<Rightarrow> real \<Rightarrow> bool" where
  "isNearOuterBoundary x z bounds margin =
     (case bounds of None \<Rightarrow> False
      | Some b \<Rightarrow> \<bar>x - minX b\<bar> \<le> margin \<or> \<bar>x - maxX b\<bar> \<le> margin
                   \<or> \<bar>z - minZ b\<bar> \<le> margin \<or> \<bar>z - maxZ b\<bar> \<le> margin)"

text \<open>\<^verbatim>\<open>Math.hypot\<close> of two numbers.\<close>

definition Math_hypot :: "real \<Rightarrow> real \<Rightarrow> real" where
  "Math_hypot a b = sqrt (a * a + b * b)"

definition relativeSector :: "real \<Rightarrow> real \<Rightarrow> real \<Rightarrow> real \<Rightarrow> real \<Rightarrow> sector" where
  "relativeSector fromX fromZ heading toX toZ =
     (let dx = toX - fromX; dz = toZ - fromZ; mag = Math_hypot dx dz
      in if mag < 1 / 1000000 then SecF
         else (let headingRad = heading * pi / 180;
                   fx = sin headingRad;
                   fz = cos headingRad;
                   dot = clamp ((fx * dx + fz * dz) / mag) (-1) 1;
                   crossY = fx * dz - fz * dx;
                   angle = Math_atan2 crossY dot * (180 / pi)
               in if \<bar>angle\<bar> \<le> 30 then SecF
                  else if \<bar>angle\<bar> \<ge> 150 then SecB
                  else if angle > 0 then SecR else SecL))"

abbreviation (input) OUTER_WALL_REPEAT_HARD_NO_GO_HITS :: int where "OUTER_WALL_REPEAT_HARD_NO_GO_HITS \<equiv> 2"
abbreviation (input) OBSTACLE_REPEAT_HARD_NO_GO_HITS :: int where "OBSTACLE_REPEAT_HARD_NO_GO_HITS \<equiv> 3"

definition getCell :: "memoryState \<Rightarrow> cellKey \<Rightarrow> cell option" where
  "getCell state key = map_of (cells state) key"

text \<open>
  \<^verbatim>\<open>getOrCreateCell\<close> returns a reference that the caller then mutates; here creation and
  mutation are \<open>modifyCell\<close>, which applies the mutation to the cell of that key, created
  at the end of the map when it is not there.
\<close>

definition modifyCell :: "cellKey \<Rightarrow> (cell \<Rightarrow> cell) \<Rightarrow> (cellKey \<times> cell) list \<Rightarrow> (cellKey \<times> cell) list" where
  "modifyCell key f cs =
     (if key \<in> fst ` set cs then map (\<lambda>(k, c). if k = key then (k, f c) else (k, c)) cs
      else cs @ [(key, f newCell)])"

definition pruneIfNeeded :: "memoryState \<Rightarrow> memoryState" where
  "pruneIfNeeded state =
     (if length (cells state) \<le> maxCells state then state
      else (let items = sort_key (\<lambda>(k, c). lastSeen c) (cells state);
                toDelete = max 1 (nat \<lfloor>real (length items) * 0.1\<rfloor>);
                gone = map fst (take toDelete items)
            in state\<lparr>cells := filter (\<lambda>(k, c). k \<notin> set gone) (cells state)\<rparr>))"

definition isCellObstacleDominant :: "cell option \<Rightarrow> bool" where
  "isCellObstacleDominant cell =
     (case cell of
        None \<Rightarrow> False
      | Some c \<Rightarrow>
          (let risk = clamp (riskEMA c) 0 1;
               repeatedOuterWall = (outerWallHits c \<ge> OUTER_WALL_REPEAT_HARD_NO_GO_HITS);
               repeatedObstacle = (obstacleHits c \<ge> 2 \<and> real_of_int (obstacleHits c) \<ge> real_of_int (openHits c) * 0.9);
               singleHardObstacle = (obstacleHits c \<ge> 1 \<and> (openHits c = 0 \<or> risk \<ge> 0.62))
           in repeatedOuterWall \<or> repeatedObstacle \<or> singleHardObstacle))"

definition hasBarrierBetween :: "memoryState \<Rightarrow> int \<Rightarrow> int \<Rightarrow> int \<Rightarrow> int \<Rightarrow> bool" where
  "hasBarrierBetween state fromIx fromIz toIx toIz =
     (let dx = toIx - fromIx; dz = toIz - fromIz; steps = max \<bar>dx\<bar> \<bar>dz\<bar>
      in if steps \<le> 1 then
           (case getCell state (toIx, toIz) of
              None \<Rightarrow> False
            | Some c \<Rightarrow> isCellObstacleDominant (Some c) \<or> clamp (riskEMA c) 0 1 > 0.72)
         else list_ex (\<lambda>i.
                 (case getCell state
                         (Math_round (real_of_int fromIx + real_of_int (dx * i) / real_of_int steps),
                          Math_round (real_of_int fromIz + real_of_int (dz * i) / real_of_int steps)) of
                    None \<Rightarrow> False
                  | Some c \<Rightarrow> isCellObstacleDominant (Some c) \<or> clamp (riskEMA c) 0 1 > 0.78))
               [1 .. steps - 1])"

record candidate =
  c_ix :: int
  c_iz :: int
  c_dx :: int
  c_dz :: int
  c_visits :: int
  c_risk :: real
  c_novelty :: real
  c_openBias :: real
  c_distance :: real
  c_sector :: sector
  c_score :: real
  c_targetPenalty :: real
  c_targetHitCount :: int
  c_targetMissCount :: int
  c_targetAbsenceEMA :: real
  c_barrierBlocked :: bool
  c_outsideBounds :: bool
  c_obstacleDominant :: bool
  c_obstacleHits :: int
  c_outerWallHits :: int
  c_openHits :: int
  c_repeatPenalty :: real
  c_hasData :: bool

definition evaluateCandidate ::
    "memoryState \<Rightarrow> real \<Rightarrow> real \<Rightarrow> real \<Rightarrow> int \<Rightarrow> int \<Rightarrow> int \<Rightarrow> int \<Rightarrow> candidate" where
  "evaluateCandidate state originX originZ heading originIx originIz nix niz =
    (let cell = getCell state (nix, niz);
         vis = (case cell of Some c \<Rightarrow> visits c | None \<Rightarrow> 0);
         risk = clamp (case cell of Some c \<Rightarrow> riskEMA c | None \<Rightarrow> 0) 0 1;
         openH = (case cell of Some c \<Rightarrow> openHits c | None \<Rightarrow> 0);
         obstacleH = (case cell of Some c \<Rightarrow> obstacleHits c | None \<Rightarrow> 0);
         outerWallH = (case cell of Some c \<Rightarrow> outerWallHits c | None \<Rightarrow> 0);
         evidence = openH + obstacleH;
         obstacleDominant = isCellObstacleDominant cell;
         openBias = real_of_int openH / real_of_int (max 1 evidence);
         novelty = 1 / (1 + real_of_int vis);
         targetHits' = (case cell of Some c \<Rightarrow> targetHitCount c | None \<Rightarrow> 0);
         targetMisses = (case cell of Some c \<Rightarrow> targetMissCount c | None \<Rightarrow> 0);
         targetAbsence = clamp (case cell of Some c \<Rightarrow> targetAbsenceEMA c
                                 | None \<Rightarrow> (if targetMisses > 0 then real_of_int targetMisses / 18 else 0)) 0 1;
         targetPenalty = (if targetHits' > 0 then 0
                          else clamp (targetAbsence * 0.6 + real_of_int (max 0 (targetMisses - 2)) / 45) 0 0.9);
         dx = nix - originIx;
         dz = niz - originIz;
         dist = Math_hypot (real_of_int dx) (real_of_int dz);
         (centerX, centerZ) = toCellCenter nix niz (cellSize state);
         sect = relativeSector originX originZ heading centerX centerZ;
         barrierBlocked = hasBarrierBetween state originIx originIz nix niz;
         (outside, boundsPenalty) = getBoundsPenalty centerX centerZ (mem_worldBounds state);
         unknownPenalty = (if evidence = 0 then 0.15 else 0);
         obstacleRepeatPenalty = clamp (real_of_int (max 0 (obstacleH - 1)) * 0.12) 0 0.85;
         outerWallRepeatPenalty = clamp (real_of_int outerWallH * 0.22) 0 1.2;
         repeatPenalty = clamp (obstacleRepeatPenalty + outerWallRepeatPenalty) 0 1.5;
         score0 = novelty * 0.95 + openBias * 0.4 - risk * 0.95 - targetPenalty * 0.95 - dist * 0.09;
         score1 = (if vis = 0 \<and> \<not> barrierBlocked \<and> \<not> outside then score0 + 0.22 else score0);
         score2 = score1 - boundsPenalty;
         score3 = score2 - unknownPenalty;
         score4 = (if barrierBlocked then score3 - 0.9 else score3);
         score5 = (if outside then score4 - 1.2 else score4);
         score6 = (if obstacleDominant then score5 - 0.95 else score5);
         score7 = (if obstacleH \<ge> 1 \<and> risk \<ge> 0.62 then score6 - 0.55 else score6);
         score8 = (if obstacleH \<ge> OBSTACLE_REPEAT_HARD_NO_GO_HITS then score7 - 0.45 else score7);
         score9 = (if outerWallH \<ge> OUTER_WALL_REPEAT_HARD_NO_GO_HITS then score8 - 0.85 else score8);
         score10 = score9 - repeatPenalty
     in \<lparr> c_ix = nix, c_iz = niz, c_dx = dx, c_dz = dz, c_visits = vis, c_risk = risk,
          c_novelty = novelty, c_openBias = openBias, c_distance = dist, c_sector = sect,
          c_score = score10, c_targetPenalty = targetPenalty, c_targetHitCount = targetHits',
          c_targetMissCount = targetMisses, c_targetAbsenceEMA = targetAbsence,
          c_barrierBlocked = barrierBlocked, c_outsideBounds = outside,
          c_obstacleDominant = obstacleDominant, c_obstacleHits = obstacleH,
          c_outerWallHits = outerWallH, c_openHits = openH, c_repeatPenalty = repeatPenalty,
          c_hasData = (cell \<noteq> None) \<rparr>)"

text \<open>The memory as the application creates it, before any update.\<close>

definition trackWorldBounds :: worldBounds where
  "trackWorldBounds = \<lparr> minX = -19, maxX = 19, minZ = -19, maxZ = 19, softMargin = Some 3.5 \<rparr>"

definition emptyMemory :: memoryState where
  "emptyMemory = \<lparr> cellSize = 2.0, mem_sensorRange = 10.0, maxCells = 5000,
     mem_worldBounds = Some trackWorldBounds, cells = [], path = [] \<rparr>"

subsection \<open>Update of the memory by one sensor tick\<close>

text \<open>
  The eight rays with their offsets in degrees, in the order of \<^verbatim>\<open>SENSOR_RAYS\<close>.
\<close>

definition SENSOR_RAYS :: "((sensorData \<Rightarrow> real option) \<times> real) list" where
  "SENSOR_RAYS = [(front, 0), (leftDiag, 45), (left, 90), (backLeft, 135), (backRay, 180),
     (backRight, -135), (right, -90), (rightDiag, -45)]"

definition bumpOpen :: "int \<Rightarrow> cell \<Rightarrow> cell" where
  "bumpOpen now c = c\<lparr>openHits := openHits c + 1, lastSeen := now\<rparr>"

text \<open>
  The sample loop of a ray, \<^verbatim>\<open>for (t = step; t < bound; t += step)\<close>: the values of
  \<open>t\<close> are the multiples \<open>k * step\<close> below the bound, \<open>k\<close> from 1. The loop stops at the
  first sample outside the world bounds and skips a sample whose cell this ray has
  already marked.
\<close>

definition sampleSteps :: "real \<Rightarrow> real \<Rightarrow> real list" where
  "sampleSteps step bound = map (\<lambda>k. real k * step) [1 ..< nat \<lceil>bound / step\<rceil>]"

fun openSamples ::
    "real \<Rightarrow> worldBounds option \<Rightarrow> int \<Rightarrow> real \<Rightarrow> real \<Rightarrow> real \<Rightarrow> real \<Rightarrow> real list \<Rightarrow> cellKey list
       \<Rightarrow> (cellKey \<times> cell) list \<Rightarrow> (cellKey \<times> cell) list" where
  "openSamples csize bounds now x z dirX dirZ [] visitedOpen cs = cs"
| "openSamples csize bounds now x z dirX dirZ (t # ts) visitedOpen cs =
     (let sampleX = x + dirX * t; sampleZ = z + dirZ * t
      in if \<not> isInsideBounds sampleX sampleZ bounds then cs
         else (let key = toGrid sampleX sampleZ csize
               in if key \<in> set visitedOpen
                  then openSamples csize bounds now x z dirX dirZ ts visitedOpen cs
                  else openSamples csize bounds now x z dirX dirZ ts (key # visitedOpen)
                         (modifyCell key (bumpOpen now) cs)))"

definition recordObstacleHit :: "int \<Rightarrow> real \<Rightarrow> real \<Rightarrow> bool \<Rightarrow> cell \<Rightarrow> cell" where
  "recordObstacleHit now srange rayDist nearOuterWall c =
     (let localRisk = clamp ((srange - rayDist) / srange) 0 1;
          impactRisk = clamp (localRisk * 0.85 + 0.15) 0 1;
          immediateHazardFloor =
            (if nearOuterWall then (if rayDist < 3.2 then 0.94 else 0.84)
             else (if rayDist < 2.8 then 0.88 else if rayDist < 4.2 then 0.74 else 0.58))
      in c\<lparr>obstacleHits := obstacleHits c + 1,
           outerWallHits := (if nearOuterWall then outerWallHits c + 1 else outerWallHits c),
           lastSeen := now,
           riskEMA := max (riskEMA c * 0.78 + impactRisk * 0.22) immediateHazardFloor\<rparr>)"

definition integrateRay ::
    "sensorData \<Rightarrow> int \<Rightarrow> real \<Rightarrow> worldBounds option \<Rightarrow> real \<Rightarrow> real \<Rightarrow> real \<Rightarrow> real
       \<Rightarrow> (cellKey \<times> cell) list \<Rightarrow> (sensorData \<Rightarrow> real option) \<times> real \<Rightarrow> (cellKey \<times> cell) list" where
  "integrateRay sd now csize bounds srange x z heading cs ray =
     (let dist = asNum (fst ray sd) srange;
          worldRad = (heading + snd ray) * pi / 180;
          dirX = sin worldRad;
          dirZ = cos worldRad;
          rayDist = clamp dist 0 srange;
          hasObstacleHit = (rayDist < srange - 0.05);
          travelDist = (if hasObstacleHit then rayDist else srange);
          step = max 0.35 (csize * 0.6);
          cs1 = openSamples csize bounds now x z dirX dirZ
                  (sampleSteps step (max step (travelDist - 0.15))) [] cs
      in if hasObstacleHit then
           (let (hitX, hitZ) = clampPointToBounds (x + dirX * rayDist) (z + dirZ * rayDist) bounds
            in if isInsideBounds hitX hitZ bounds
               then modifyCell (toGrid hitX hitZ csize)
                      (recordObstacleHit now srange rayDist
                         (isNearOuterBoundary hitX hitZ bounds (max 0.4 (csize * 0.65)))) cs1
               else cs1)
         else
           (let openX = x + dirX * srange * 0.8; openZ = z + dirZ * srange * 0.8
            in if isInsideBounds openX openZ bounds
               then modifyCell (toGrid openX openZ csize) (bumpOpen now) cs1
               else cs1))"

definition visitCurrentCell :: "sensorData \<Rightarrow> int \<Rightarrow> real \<Rightarrow> cell \<Rightarrow> cell" where
  "visitCurrentCell sd now riskInstant c =
     (let c1 = c\<lparr>visits := visits c + 1, lastSeen := now\<rparr>;
          c2 = c1\<lparr>riskEMA := (if visits c1 = 1 then riskInstant
                                else riskEMA c1 * 0.85 + riskInstant * 0.15)\<rparr>;
          c3 = (if isStuck sd then c2\<lparr>stuckCount := stuckCount c2 + 1\<rparr> else c2);
          hitCount = int (countTargetHits sd)
      in if hitCount > 0
         then c3\<lparr>targetHitCount := targetHitCount c3 + hitCount, lastTargetSeenAt := now,
                 targetAbsenceEMA := clamp (targetAbsenceEMA c3 * 0.75) 0 1\<rparr>
         else c3\<lparr>targetMissCount := targetMissCount c3 + 1, lastTargetMissAt := now,
                 targetAbsenceEMA := clamp (clamp (targetAbsenceEMA c3) 0 1 * 0.92 + 0.08) 0 1\<rparr>)"

text \<open>
  \<^verbatim>\<open>update(sensorData, now)\<close>. It returns at once, leaving the memory as it is, when
  \<^verbatim>\<open>worldX\<close> or \<^verbatim>\<open>worldZ\<close> is not a finite number.
\<close>

definition update :: "sensorData \<Rightarrow> int \<Rightarrow> memoryState \<Rightarrow> memoryState" where
  "update sd now state =
     (case (worldX sd, worldZ sd) of
        (Some x, Some z) \<Rightarrow>
          (let srange = clamp (asNum (sensorRange sd) (mem_sensorRange state)) 4.0 30.0;
               st1 = state\<lparr>mem_sensorRange := srange\<rparr>;
               heading = asNum (headingDeg sd) 0;
               (ix, iz) = toGrid x z (cellSize st1);
               rayDistances = map (\<lambda>v. asNum v srange)
                  [front sd, leftDiag sd, rightDiag sd, left sd, right sd, backRay sd, backLeft sd, backRight sd];
               minObstacleDist = Min (set rayDistances);
               riskInstant = clamp ((3.2 - minObstacleDist) / 3.2) 0 1;
               cs1 = modifyCell (ix, iz) (visitCurrentCell sd now riskInstant) (cells st1);
               path1 = path st1 @ [(ix, iz, now)];
               path2 = (if length path1 > 500 then tl path1 else path1);
               cs2 = foldl (integrateRay sd now (cellSize st1) (mem_worldBounds st1) srange x z heading)
                       cs1 SENSOR_RAYS
           in pruneIfNeeded (st1\<lparr>cells := cs2, path := path2\<rparr>))
      | _ \<Rightarrow> state)"

subsection \<open>Context query\<close>

definition getNoGoReasons :: "candidate \<Rightarrow> string list" where
  "getNoGoReasons c =
     (if c_outsideBounds c then [''outsideBounds''] else [])
     @ (if c_barrierBlocked c then [''barrierBlocked''] else [])
     @ (if c_obstacleDominant c then [''obstacleDominant''] else [])
     @ (if c_obstacleHits c \<ge> 1 \<and> c_risk c \<ge> 0.62 then [''recentObstacleHit''] else [])
     @ (if c_obstacleHits c \<ge> OBSTACLE_REPEAT_HARD_NO_GO_HITS then [''obstacleRepeat''] else [])
     @ (if c_outerWallHits c \<ge> OUTER_WALL_REPEAT_HARD_NO_GO_HITS then [''outerWallRepeat''] else [])
     @ (if c_repeatPenalty c \<ge> 0.85 then [''repeatPenaltyHigh''] else [])
     @ (if c_risk c \<ge> 0.78 then [''highRisk''] else [])"

text \<open>The mean of a quantity over the candidates of a sector (over 1 when there are none).\<close>

definition sectorMean :: "candidate list \<Rightarrow> (candidate \<Rightarrow> real) \<Rightarrow> real" where
  "sectorMean cands f = sum_list (map f cands) / real (max 1 (length cands))"

definition sectorScore :: "candidate list \<Rightarrow> sector \<Rightarrow> real" where
  "sectorScore cands s =
     (let bucket = filter (\<lambda>c. \<not> c_outsideBounds c \<and> c_sector c = s) cands
      in sectorMean bucket c_novelty * 1.2 + sectorMean bucket c_openBias * 0.4
           - sectorMean bucket c_risk * 0.95 - sectorMean bucket c_targetPenalty * 0.9)"

definition sectorSafetyOf :: "candidate list \<Rightarrow> sector \<Rightarrow> sectorSafetyEntry" where
  "sectorSafetyOf cands s =
     (let sectorCandidates = filter (\<lambda>c. c_sector c = s) cands;
          total = length sectorCandidates;
          noGo = length (filter (\<lambda>c. getNoGoReasons c \<noteq> []) sectorCandidates)
      in \<lparr> ss_sector = Some s, ss_safeCount = Some (real total - real noGo),
           ss_noGoRatio = Some (round3 (if total > 0 then real noGo / real total else 0)) \<rparr>)"

text \<open>
  The part of the context that the decision core reads. Candidates stand for their
  summaries (the summaries round the numbers to three digits for display); the current
  cell's display fields and the sector score table are left out.
\<close>

record explorationContext =
  ctx_ix :: int
  ctx_iz :: int
  ctx_currentCell :: cell
  ctx_loopRate :: real
  ctx_loopWarningHigh :: bool
  ctx_preferredSector :: sector
  ctx_frontier :: "candidate list"
  ctx_risky :: "candidate list"
  ctx_mappedCells :: nat
  ctx_candidateCount :: nat
  ctx_noGoRatio :: real
  ctx_topCandidates :: "candidate list"
  ctx_topSafeCandidates :: "candidate list"
  ctx_sectorSafety :: "sectorSafetyEntry list"

text \<open>
  \<^verbatim>\<open>getContext(sensorData, options)\<close>, with the three options as arguments (their
  defaults are 2, 6 and 5). The result is \<open>None\<close> for \<^verbatim>\<open>null\<close>.
\<close>

definition getContext :: "sensorData \<Rightarrow> nat \<Rightarrow> nat \<Rightarrow> nat \<Rightarrow> memoryState \<Rightarrow> explorationContext option" where
  "getContext sd radiusCells maxFrontier maxRisky state =
     (case (worldX sd, worldZ sd) of
        (Some x, Some z) \<Rightarrow>
          (let heading = asNum (headingDeg sd) 0;
               (ix, iz) = toGrid x z (cellSize state);
               currentCell = (case getCell state (ix, iz) of Some c \<Rightarrow> c | None \<Rightarrow> newCell);
               offsets = [- int radiusCells .. int radiusCells];
               cands = concat (map (\<lambda>dz. map (\<lambda>dx. evaluateCandidate state x z heading ix iz (ix + dx) (iz + dz))
                                              (filter (\<lambda>dx. \<not> (dx = 0 \<and> dz = 0)) offsets)) offsets);
               preferred = (case sort_key (\<lambda>s. - sectorScore cands s) [SecL, SecF, SecR, SecB] of
                              s # _ \<Rightarrow> s | [] \<Rightarrow> SecF);
               safeCandidates = filter (\<lambda>c. getNoGoReasons c = []) cands;
               frontier = take maxFrontier (sort_key (\<lambda>c. - c_score c) (filter (\<lambda>c. c_risk c < 0.9) safeCandidates));
               risky = take maxRisky (sort_key (\<lambda>c. - c_risk c) (filter (\<lambda>c. c_risk c > 0.5) cands));
               recentPath = drop (length (path state) - 80) (path state);
               sameCellCount = length (filter (\<lambda>(pix, piz, t). pix = ix \<and> piz = iz) recentPath);
               loopRate = (if length recentPath > 0 then real sameCellCount / real (length recentPath) else 0);
               noGoCount = length (filter (\<lambda>c. getNoGoReasons c \<noteq> []) cands);
               noGoRatio = (if length cands > 0 then real noGoCount / real (length cands) else 0)
           in Some \<lparr> ctx_ix = ix, ctx_iz = iz, ctx_currentCell = currentCell,
                     ctx_loopRate = round3 loopRate, ctx_loopWarningHigh = (loopRate > 0.35),
                     ctx_preferredSector = preferred, ctx_frontier = frontier, ctx_risky = risky,
                     ctx_mappedCells = length (cells state), ctx_candidateCount = length cands,
                     ctx_noGoRatio = round3 noGoRatio,
                     ctx_topCandidates = take 3 (sort_key (\<lambda>c. - c_score c) cands),
                     ctx_topSafeCandidates = take 3 (sort_key (\<lambda>c. - c_score c) safeCandidates),
                     ctx_sectorSafety = map (sectorSafetyOf cands) [SecL, SecF, SecR, SecB] \<rparr>)
      | _ \<Rightarrow> None)"

text \<open>
  A memory that already holds a visited cell, and the open-approach snapshot with its
  \<^verbatim>\<open>worldX\<close> not a finite number.
\<close>

definition memoryWithCell :: memoryState where
  "memoryWithCell = emptyMemory\<lparr>cells := [((0, -5), newCell\<lparr>visits := 3, lastSeen := 900\<rparr>)],
     path := [(0, -5, 900)]\<rparr>"

definition sensorNoPosition :: sensorData where
  "sensorNoPosition = sensorLockOpenApproach\<lparr>worldX := None\<rparr>"

section \<open>Verified properties\<close>

subsection \<open>Danger forces escape and back-off\<close>









lemma fallbackCycle_fields:
  "fallbackCycle state ci f = (st', r) \<Longrightarrow>
     cf_signal r = inferContextModeSignal (ci_sensor ci)
        (Some (snd (updateContactTracking (ci_tick ci) state (ci_sensor ci))))
   \<and> cf_mode r = expectedMode (cf_signal r) \<and> cf_skill r = HOLD_POSITION \<and> cf_failure r = f
   \<and> cf_time r = ci_now ci
   \<and> cf_previousMode r = lastStrategyMode (fst (updateContactTracking (ci_tick ci) state (ci_sensor ci)))
   \<and> st' = (fst (updateContactTracking (ci_tick ci) state (ci_sensor ci)))\<lparr>lastStrategyMode := Some (cf_mode r)\<rparr>"
  by (auto simp: fallbackCycle_def Let_def split: prod.splits)







subsection \<open>The stabilizer, branch by branch\<close>

lemma stabilize_cases [case_names stable lock_hold forced cooldown min_hold vote confirmed wait]:
  obtains
    (stable) st' where "lastStrategyMode st = None \<or> Some d = lastStrategyMode st"
      "stabilizeStrategyModeWithHysteresis now st d sg
         = (st', \<lparr> hy_mode = d, hy_held = False, hy_forced = False, hy_reason = ''stable'' \<rparr>)"
      "pendingStrategyMode st' = None" "lastModeSwitchAt st' = lastModeSwitchAt st"
      "lastSkillName st' = lastSkillName st \<and> approachHoldRemaining st' = approachHoldRemaining st
         \<and> scanBurstCount st' = scanBurstCount st \<and> backoffBurstCount st' = backoffBurstCount st"
  | (lock_hold) st' p where "lastStrategyMode st = Some p" "p \<noteq> d" "stabLockHold st d sg"
      "stabilizeStrategyModeWithHysteresis now st d sg
         = (st', \<lparr> hy_mode = TARGET_LOCK, hy_held = True, hy_forced = True, hy_reason = ''target_lock_hold_window'' \<rparr>)"
      "pendingStrategyMode st' = None" "lastModeSwitchAt st' = lastModeSwitchAt st" "p = TARGET_LOCK"
      "lastSkillName st' = lastSkillName st \<and> approachHoldRemaining st' = approachHoldRemaining st
         \<and> scanBurstCount st' = scanBurstCount st \<and> backoffBurstCount st' = backoffBurstCount st"
  | (forced) st' p r where "lastStrategyMode st = Some p" "p \<noteq> d" "\<not> stabLockHold st d sg"
      "stabForcedOverride d sg"
      "stabilizeStrategyModeWithHysteresis now st d sg
         = (st', \<lparr> hy_mode = d, hy_held = False, hy_forced = True, hy_reason = r \<rparr>)"
      "r = ''critical_context_override'' \<or> r = ''lock_priority_promotion'' \<or> r = ''strong_lock_promotion''"
      "pendingStrategyMode st' = None" "lastModeSwitchAt st' = now"
      "lastSkillName st' = lastSkillName st \<and> approachHoldRemaining st' = approachHoldRemaining st
         \<and> scanBurstCount st' = scanBurstCount st \<and> backoffBurstCount st' = backoffBurstCount st"
  | (cooldown) p where "lastStrategyMode st = Some p" "p \<noteq> d" "\<not> stabLockHold st d sg"
      "\<not> stabForcedOverride d sg"
      "lastModeSwitchAt st > 0 \<and> now - lastModeSwitchAt st < MODE_SWITCH_COOLDOWN_MS"
      "stabilizeStrategyModeWithHysteresis now st d sg
         = (st, \<lparr> hy_mode = p, hy_held = True, hy_forced = False, hy_reason = ''switch_cooldown_hold'' \<rparr>)"
  | (min_hold) p where "lastStrategyMode st = Some p" "p \<noteq> d" "\<not> stabLockHold st d sg"
      "\<not> stabForcedOverride d sg"
      "\<not> (lastModeSwitchAt st > 0 \<and> now - lastModeSwitchAt st < MODE_SWITCH_COOLDOWN_MS)"
      "modeHoldRemaining st > 0"
      "stabilizeStrategyModeWithHysteresis now st d sg
         = (st\<lparr>modeHoldRemaining := modeHoldRemaining st - 1\<rparr>,
            \<lparr> hy_mode = p, hy_held = True, hy_forced = False, hy_reason = ''minimum_mode_hold'' \<rparr>)"
  | (vote) p where "lastStrategyMode st = Some p" "p \<noteq> d" "\<not> stabLockHold st d sg"
      "\<not> stabForcedOverride d sg"
      "\<not> (lastModeSwitchAt st > 0 \<and> now - lastModeSwitchAt st < MODE_SWITCH_COOLDOWN_MS)"
      "\<not> modeHoldRemaining st > 0" "pendingStrategyMode st \<noteq> Some d"
      "stabilizeStrategyModeWithHysteresis now st d sg
         = (st\<lparr>pendingStrategyMode := Some d, pendingStrategySince := now, pendingStrategyVotes := 1\<rparr>,
            \<lparr> hy_mode = p, hy_held = True, hy_forced = False, hy_reason = ''pending_switch_vote'' \<rparr>)"
  | (confirmed) st' p where "lastStrategyMode st = Some p" "p \<noteq> d" "\<not> stabLockHold st d sg"
      "\<not> stabForcedOverride d sg"
      "\<not> (lastModeSwitchAt st > 0 \<and> now - lastModeSwitchAt st < MODE_SWITCH_COOLDOWN_MS)"
      "\<not> modeHoldRemaining st > 0" "pendingStrategyMode st = Some d"
      "pendingStrategyVotes st + 1 \<ge> MODE_SWITCH_MIN_VOTES"
      "now - pendingStrategySince st \<ge> MODE_SWITCH_MIN_DWELL_MS"
      "stabilizeStrategyModeWithHysteresis now st d sg
         = (st', \<lparr> hy_mode = d, hy_held = False, hy_forced = False, hy_reason = ''hysteresis_confirmed_switch'' \<rparr>)"
      "pendingStrategyMode st' = None" "lastModeSwitchAt st' = now"
      "lastSkillName st' = lastSkillName st \<and> approachHoldRemaining st' = approachHoldRemaining st
         \<and> scanBurstCount st' = scanBurstCount st \<and> backoffBurstCount st' = backoffBurstCount st"
  | (wait) p where "lastStrategyMode st = Some p" "p \<noteq> d" "\<not> stabLockHold st d sg"
      "\<not> stabForcedOverride d sg"
      "\<not> (lastModeSwitchAt st > 0 \<and> now - lastModeSwitchAt st < MODE_SWITCH_COOLDOWN_MS)"
      "\<not> modeHoldRemaining st > 0" "pendingStrategyMode st = Some d"
      "\<not> (pendingStrategyVotes st + 1 \<ge> MODE_SWITCH_MIN_VOTES
          \<and> now - pendingStrategySince st \<ge> MODE_SWITCH_MIN_DWELL_MS)"
      "stabilizeStrategyModeWithHysteresis now st d sg
         = (st\<lparr>pendingStrategyVotes := pendingStrategyVotes st + 1\<rparr>,
            \<lparr> hy_mode = p, hy_held = True, hy_forced = False, hy_reason = ''pending_switch_wait'' \<rparr>)"
proof (cases "lastStrategyMode st = None \<or> Some d = lastStrategyMode st")
  case True
  then show ?thesis
    by (intro stable[of "fst (stabilizeStrategyModeWithHysteresis now st d sg)"])
       (auto simp: stabilizeStrategyModeWithHysteresis_def Let_def clearPending_def)
next
  case False
  then obtain p where p: "lastStrategyMode st = Some p" "p \<noteq> d" by auto
  show ?thesis
  proof (cases "stabLockHold st d sg")
    case True
    with p show ?thesis
      by (intro lock_hold[of p "fst (stabilizeStrategyModeWithHysteresis now st d sg)"])
         (auto simp: stabilizeStrategyModeWithHysteresis_def Let_def clearPending_def stabLockHold_def)
  next
    case nl: False
    show ?thesis
    proof (cases "stabForcedOverride d sg")
      case True
      with p nl show ?thesis
        by (intro forced[of p "fst (stabilizeStrategyModeWithHysteresis now st d sg)"
              "hy_reason (snd (stabilizeStrategyModeWithHysteresis now st d sg))"])
           (auto simp: stabilizeStrategyModeWithHysteresis_def Let_def clearPending_def
              stabLockHold_def stabForcedOverride_def)
    next
      case nf: False
      show ?thesis
      proof (cases "lastModeSwitchAt st > 0 \<and> now - lastModeSwitchAt st < MODE_SWITCH_COOLDOWN_MS")
        case True
        with p nl nf show ?thesis
          by (intro cooldown[of p])
             (auto simp: stabilizeStrategyModeWithHysteresis_def Let_def
                stabLockHold_def stabForcedOverride_def)
      next
        case nc: False
        show ?thesis
        proof (cases "modeHoldRemaining st > 0")
          case True
          with p nl nf nc show ?thesis
            by (intro min_hold[of p])
               (auto simp: stabilizeStrategyModeWithHysteresis_def Let_def
                  stabLockHold_def stabForcedOverride_def)
        next
          case nh: False
          show ?thesis
          proof (cases "pendingStrategyMode st = Some d")
            case False
            with p nl nf nc nh show ?thesis
              by (intro vote[of p])
                 (auto simp: stabilizeStrategyModeWithHysteresis_def Let_def
                    stabLockHold_def stabForcedOverride_def)
          next
            case pd: True
            show ?thesis
            proof (cases "pendingStrategyVotes st + 1 \<ge> MODE_SWITCH_MIN_VOTES
                \<and> now - pendingStrategySince st \<ge> MODE_SWITCH_MIN_DWELL_MS")
              case True
              with p nl nf nc nh pd show ?thesis
                by (intro confirmed[of p "fst (stabilizeStrategyModeWithHysteresis now st d sg)"])
                   (auto simp: stabilizeStrategyModeWithHysteresis_def Let_def clearPending_def
                      stabLockHold_def stabForcedOverride_def)
            next
              case False
              with p nl nf nc nh pd show ?thesis
                by (intro wait[of p])
                   (auto simp: stabilizeStrategyModeWithHysteresis_def Let_def
                      stabLockHold_def stabForcedOverride_def)
            qed
          qed
        qed
      qed
    qed
  qed
qed

subsection \<open>One cycle and a run of cycles\<close>

lemma uct_frame:
  "lastStrategyMode (fst (updateContactTracking t st sd)) = lastStrategyMode st"
  "lastModeSwitchAt (fst (updateContactTracking t st sd)) = lastModeSwitchAt st"
  "pendingStrategyMode (fst (updateContactTracking t st sd)) = pendingStrategyMode st"
  "pendingStrategySince (fst (updateContactTracking t st sd)) = pendingStrategySince st"
  "pendingStrategyVotes (fst (updateContactTracking t st sd)) = pendingStrategyVotes st"
  "lastSkillName (fst (updateContactTracking t st sd)) = lastSkillName st"
  "approachHoldRemaining (fst (updateContactTracking t st sd)) = approachHoldRemaining st"
  "scanBurstCount (fst (updateContactTracking t st sd)) = scanBurstCount st"
  "backoffBurstCount (fst (updateContactTracking t st sd)) = backoffBurstCount st"
  "modeHoldRemaining (fst (updateContactTracking t st sd)) = modeHoldRemaining st"
  "targetLockHoldRemaining (fst (updateContactTracking t st sd)) = targetLockHoldRemaining st"
  by (simp_all add: updateContactTracking_def Let_def)

lemma cadence_frame:
  "lastModeSwitchAt (fst (enforceSkillCadence rs m sg sd ab st)) = lastModeSwitchAt st"
  "pendingStrategyMode (fst (enforceSkillCadence rs m sg sd ab st)) = pendingStrategyMode st"
  "pendingStrategySince (fst (enforceSkillCadence rs m sg sd ab st)) = pendingStrategySince st"
  "pendingStrategyVotes (fst (enforceSkillCadence rs m sg sd ab st)) = pendingStrategyVotes st"
  by (simp_all add: enforceSkillCadence_def Let_def split: prod.splits)

lemma resolveCycle_parts:
  obtains st1 contact sg mr st2 hy sr st3 cd where
    "updateContactTracking (ci_tick ci) state (ci_sensor ci) = (st1, contact)"
    "sg = inferContextModeSignal (ci_sensor ci) (Some contact)"
    "mr = resolveStrategyModeWithContext (ci_mode ci) sg (lastStrategyMode st1)"
    "stabilizeStrategyModeWithHysteresis (ci_now ci) st1 (mr_mode mr) sg = (st2, hy)"
    "sr = resolveSkillWithContext (ci_skill ci) (hy_mode hy) (ci_sector ci) sg (ci_sensor ci)"
    "enforceSkillCadence (sr_skill sr) (hy_mode hy) sg (ci_sensor ci) (sr_approachBias sr) st2 = (st3, cd)"
    "resolveCycle state ci =
       (st3\<lparr>lastStrategyMode := Some (hy_mode hy), lastSkillName := Some (cd_skill cd)\<rparr>,
        \<lparr> cr_time = ci_now ci, cr_previousMode = lastStrategyMode st1,
          cr_previousSkill = normalizeSkillName (lastSkillName state) MOVE_TO_FRONTIER,
          cr_signal = sg, cr_modeResolved = mr, cr_hysteresis = hy,
          cr_skillResolved = sr, cr_cadence = cd \<rparr>)"
proof -
  obtain st1 contact where a: "updateContactTracking (ci_tick ci) state (ci_sensor ci) = (st1, contact)"
    by (cases "updateContactTracking (ci_tick ci) state (ci_sensor ci)")
  define sg where "sg = inferContextModeSignal (ci_sensor ci) (Some contact)"
  define mr where "mr = resolveStrategyModeWithContext (ci_mode ci) sg (lastStrategyMode st1)"
  obtain st2 hy where b: "stabilizeStrategyModeWithHysteresis (ci_now ci) st1 (mr_mode mr) sg = (st2, hy)"
    by (cases "stabilizeStrategyModeWithHysteresis (ci_now ci) st1 (mr_mode mr) sg")
  define sr where "sr = resolveSkillWithContext (ci_skill ci) (hy_mode hy) (ci_sector ci) sg (ci_sensor ci)"
  obtain st3 cd where c:
    "enforceSkillCadence (sr_skill sr) (hy_mode hy) sg (ci_sensor ci) (sr_approachBias sr) st2 = (st3, cd)"
    by (cases "enforceSkillCadence (sr_skill sr) (hy_mode hy) sg (ci_sensor ci) (sr_approachBias sr) st2")
  have "resolveCycle state ci =
       (st3\<lparr>lastStrategyMode := Some (hy_mode hy), lastSkillName := Some (cd_skill cd)\<rparr>,
        \<lparr> cr_time = ci_now ci, cr_previousMode = lastStrategyMode st1,
          cr_previousSkill = normalizeSkillName (lastSkillName state) MOVE_TO_FRONTIER,
          cr_signal = sg, cr_modeResolved = mr, cr_hysteresis = hy,
          cr_skillResolved = sr, cr_cadence = cd \<rparr>)"
    using a b c by (simp add: resolveCycle_def Let_def sg_def[symmetric] mr_def[symmetric] sr_def[symmetric])
  with a b c sg_def mr_def sr_def show ?thesis using that by blast
qed

text \<open>What one cycle does to the fields the stabilizer keeps.\<close>

lemma resolveCycle_step:
  assumes "resolveCycle state ci = (state', r)"
  shows "cr_time r = ci_now ci"
    and "cr_previousMode r = lastStrategyMode state"
    and "lastStrategyMode state' = Some (hy_mode (cr_hysteresis r))"
    and "lastModeSwitchAt state' = lastModeSwitchAt state \<or> lastModeSwitchAt state' = ci_now ci"
    and "modeSwitched r \<Longrightarrow> lastModeSwitchAt state' = ci_now ci"
    and "modeSwitched r \<Longrightarrow> \<not> hy_forced (cr_hysteresis r) \<Longrightarrow>
           hy_reason (cr_hysteresis r) = ''hysteresis_confirmed_switch''
         \<and> mr_mode (cr_modeResolved r) = hy_mode (cr_hysteresis r)
         \<and> pendingStrategyMode state = Some (hy_mode (cr_hysteresis r))
         \<and> pendingStrategySince state + MODE_SWITCH_MIN_DWELL_MS \<le> ci_now ci
         \<and> \<not> (lastModeSwitchAt state > 0 \<and> ci_now ci - lastModeSwitchAt state < MODE_SWITCH_COOLDOWN_MS)"
    and "modeSwitched r \<Longrightarrow> hy_forced (cr_hysteresis r) \<Longrightarrow>
           hy_reason (cr_hysteresis r) = ''critical_context_override''
         \<or> hy_reason (cr_hysteresis r) = ''lock_priority_promotion''
         \<or> hy_reason (cr_hysteresis r) = ''strong_lock_promotion''"
    and "pendingStrategyMode state' = Some m \<Longrightarrow>
           (pendingStrategyMode state = Some m \<and> pendingStrategySince state' = pendingStrategySince state)
         \<or> (mr_mode (cr_modeResolved r) = m \<and> hy_reason (cr_hysteresis r) = ''pending_switch_vote''
              \<and> \<not> modeSwitched r \<and> pendingStrategySince state' = ci_now ci)"
proof -
  obtain st1 contact sg mr st2 hy sr st3 cd where p:
    "updateContactTracking (ci_tick ci) state (ci_sensor ci) = (st1, contact)"
    "stabilizeStrategyModeWithHysteresis (ci_now ci) st1 (mr_mode mr) sg = (st2, hy)"
    "enforceSkillCadence (sr_skill sr) (hy_mode hy) sg (ci_sensor ci) (sr_approachBias sr) st2 = (st3, cd)"
    "resolveCycle state ci =
       (st3\<lparr>lastStrategyMode := Some (hy_mode hy), lastSkillName := Some (cd_skill cd)\<rparr>,
        \<lparr> cr_time = ci_now ci, cr_previousMode = lastStrategyMode st1,
          cr_previousSkill = normalizeSkillName (lastSkillName state) MOVE_TO_FRONTIER,
          cr_signal = sg, cr_modeResolved = mr, cr_hysteresis = hy,
          cr_skillResolved = sr, cr_cadence = cd \<rparr>)"
    by (rule resolveCycle_parts[of ci state]) blast
  have st1: "st1 = fst (updateContactTracking (ci_tick ci) state (ci_sensor ci))" using p(1) by simp
  have st3: "st3 = fst (enforceSkillCadence (sr_skill sr) (hy_mode hy) sg (ci_sensor ci) (sr_approachBias sr) st2)"
    using p(3) by simp
  have f1: "lastStrategyMode st1 = lastStrategyMode state" "lastModeSwitchAt st1 = lastModeSwitchAt state"
    "pendingStrategyMode st1 = pendingStrategyMode state" "pendingStrategySince st1 = pendingStrategySince state"
    unfolding st1 by (simp_all add: uct_frame)
  have f3: "lastModeSwitchAt st3 = lastModeSwitchAt st2" "pendingStrategyMode st3 = pendingStrategyMode st2"
    "pendingStrategySince st3 = pendingStrategySince st2"
    unfolding st3 by (simp_all add: cadence_frame)
  have r: "r = \<lparr> cr_time = ci_now ci, cr_previousMode = lastStrategyMode st1,
          cr_previousSkill = normalizeSkillName (lastSkillName state) MOVE_TO_FRONTIER,
          cr_signal = sg, cr_modeResolved = mr, cr_hysteresis = hy,
          cr_skillResolved = sr, cr_cadence = cd \<rparr>"
    and s: "state' = st3\<lparr>lastStrategyMode := Some (hy_mode hy), lastSkillName := Some (cd_skill cd)\<rparr>"
    using assms p(4) by simp_all
  show "cr_time r = ci_now ci" "cr_previousMode r = lastStrategyMode state"
    "lastStrategyMode state' = Some (hy_mode (cr_hysteresis r))"
    by (simp_all add: r s f1)
  show "lastModeSwitchAt state' = lastModeSwitchAt state \<or> lastModeSwitchAt state' = ci_now ci"
    by (cases rule: stabilize_cases[of st1 "mr_mode mr" "ci_now ci" sg])
       (use p(2) in \<open>auto simp: r s f1 f3\<close>)
  show "modeSwitched r \<Longrightarrow> lastModeSwitchAt state' = ci_now ci"
    by (cases rule: stabilize_cases[of st1 "mr_mode mr" "ci_now ci" sg])
       (use p(2) in \<open>auto simp: r s f1 f3 byModeChange_def\<close>)
  show "modeSwitched r \<Longrightarrow> \<not> hy_forced (cr_hysteresis r) \<Longrightarrow>
           hy_reason (cr_hysteresis r) = ''hysteresis_confirmed_switch''
         \<and> mr_mode (cr_modeResolved r) = hy_mode (cr_hysteresis r)
         \<and> pendingStrategyMode state = Some (hy_mode (cr_hysteresis r))
         \<and> pendingStrategySince state + MODE_SWITCH_MIN_DWELL_MS \<le> ci_now ci
         \<and> \<not> (lastModeSwitchAt state > 0 \<and> ci_now ci - lastModeSwitchAt state < MODE_SWITCH_COOLDOWN_MS)"
    by (cases rule: stabilize_cases[of st1 "mr_mode mr" "ci_now ci" sg])
       (use p(2) in \<open>auto simp: r s f1 f3 byModeChange_def\<close>)
  show "modeSwitched r \<Longrightarrow> hy_forced (cr_hysteresis r) \<Longrightarrow>
           hy_reason (cr_hysteresis r) = ''critical_context_override''
         \<or> hy_reason (cr_hysteresis r) = ''lock_priority_promotion''
         \<or> hy_reason (cr_hysteresis r) = ''strong_lock_promotion''"
    by (cases rule: stabilize_cases[of st1 "mr_mode mr" "ci_now ci" sg])
       (use p(2) in \<open>auto simp: r s f1 f3 byModeChange_def\<close>)
  show "pendingStrategyMode state' = Some m \<Longrightarrow>
           (pendingStrategyMode state = Some m \<and> pendingStrategySince state' = pendingStrategySince state)
         \<or> (mr_mode (cr_modeResolved r) = m \<and> hy_reason (cr_hysteresis r) = ''pending_switch_vote''
              \<and> \<not> modeSwitched r \<and> pendingStrategySince state' = ci_now ci)"
    by (cases rule: stabilize_cases[of st1 "mr_mode mr" "ci_now ci" sg])
       (use p(2) in \<open>auto simp: r s f1 f3 byModeChange_def\<close>)
qed

text \<open>What a failed cycle does to the session state: contact tracking and the mode, only.\<close>

lemma fallbackCycle_step:
  assumes "fallbackCycle state ci f = (state', r)"
  shows "cf_time r = ci_now ci"
    and "cf_previousMode r = lastStrategyMode state"
    and "lastStrategyMode state' = Some (cf_mode r)"
    and "lastModeSwitchAt state' = lastModeSwitchAt state"
    and "pendingStrategyMode state' = pendingStrategyMode state"
    and "pendingStrategySince state' = pendingStrategySince state"
    and "scanBurstCount state' = scanBurstCount state"
    and "backoffBurstCount state' = backoffBurstCount state"
    and "approachHoldRemaining state' = approachHoldRemaining state"
    and "lastSkillName state' = lastSkillName state"
    and "cf_skill r = HOLD_POSITION"
  using fallbackCycle_fields[OF assms] by (simp_all add: uct_frame)

lemma decisionCycle_cases [case_names usable failed]:
  obtains
    (usable) state' r where "ci_failure ci = None" "resolveCycle state ci = (state', r)"
      "decisionCycle state ci = (state', Resolved r)"
  | (failed) f state' r where "ci_failure ci = Some f" "fallbackCycle state ci f = (state', r)"
      "decisionCycle state ci = (state', Fallback r)"
proof (cases "ci_failure ci")
  case None
  obtain state' r where e: "resolveCycle state ci = (state', r)" by (cases "resolveCycle state ci")
  with None have "decisionCycle state ci = (state', Resolved r)" by (simp add: decisionCycle_def)
  with None e show ?thesis using usable by blast
next
  case (Some f)
  obtain state' r where e: "fallbackCycle state ci f = (state', r)" by (cases "fallbackCycle state ci f")
  with Some have "decisionCycle state ci = (state', Fallback r)" by (simp add: decisionCycle_def)
  with Some e show ?thesis using failed by blast
qed

lemma decisionCycle_Resolved:
  "decisionCycle state ci = (state', Resolved r) \<Longrightarrow> resolveCycle state ci = (state', r)"
  by (cases rule: decisionCycle_cases[of ci state]) simp_all

lemma decisionCycle_Fallback:
  "decisionCycle state ci = (state', Fallback r) \<Longrightarrow> \<exists>f. fallbackCycle state ci f = (state', r)"
  by (cases rule: decisionCycle_cases[of ci state]) auto

text \<open>What a cycle of either outcome does to the fields the stabilizer keeps.\<close>

lemma decisionCycle_step:
  assumes "decisionCycle state ci = (state', out)"
  shows "outTime out = ci_now ci"
    and "outPreviousMode out = lastStrategyMode state"
    and "lastStrategyMode state' = Some (outMode out)"
    and "lastModeSwitchAt state' = lastModeSwitchAt state \<or> lastModeSwitchAt state' = ci_now ci"
    and "outSwitched out \<Longrightarrow> \<not> isFallback out \<Longrightarrow> lastModeSwitchAt state' = ci_now ci"
    and "pendingStrategyMode state' = Some m \<Longrightarrow>
           (pendingStrategyMode state = Some m \<and> pendingStrategySince state' = pendingStrategySince state)
         \<or> (\<exists>v. out = Resolved v \<and> mr_mode (cr_modeResolved v) = m
               \<and> hy_reason (cr_hysteresis v) = ''pending_switch_vote''
               \<and> \<not> modeSwitched v \<and> pendingStrategySince state' = ci_now ci)"
proof -
  show "outTime out = ci_now ci"
    by (cases rule: decisionCycle_cases[of ci state])
       (use assms resolveCycle_step(1) fallbackCycle_step(1) in auto)
  show "outPreviousMode out = lastStrategyMode state"
    by (cases rule: decisionCycle_cases[of ci state])
       (use assms resolveCycle_step(2) fallbackCycle_step(2) in auto)
  show "lastStrategyMode state' = Some (outMode out)"
    by (cases rule: decisionCycle_cases[of ci state])
       (use assms resolveCycle_step(3) fallbackCycle_step(3) in auto)
  show "lastModeSwitchAt state' = lastModeSwitchAt state \<or> lastModeSwitchAt state' = ci_now ci"
    by (cases rule: decisionCycle_cases[of ci state])
       (use assms resolveCycle_step(4) fallbackCycle_step(4) in auto)
  show "outSwitched out \<Longrightarrow> \<not> isFallback out \<Longrightarrow> lastModeSwitchAt state' = ci_now ci"
    by (cases rule: decisionCycle_cases[of ci state])
       (use assms resolveCycle_step(5) in \<open>auto simp: outSwitched_def\<close>)
  show "pendingStrategyMode state' = Some m \<Longrightarrow>
           (pendingStrategyMode state = Some m \<and> pendingStrategySince state' = pendingStrategySince state)
         \<or> (\<exists>v. out = Resolved v \<and> mr_mode (cr_modeResolved v) = m
               \<and> hy_reason (cr_hysteresis v) = ''pending_switch_vote''
               \<and> \<not> modeSwitched v \<and> pendingStrategySince state' = ci_now ci)"
  proof (cases rule: decisionCycle_cases[of ci state])
    case (usable st2 r)
    assume p: "pendingStrategyMode state' = Some m"
    from usable(3) assms have e: "st2 = state'" "out = Resolved r" by simp_all
    from resolveCycle_step(8)[OF usable(2)[unfolded e(1)] p] e(2) show ?thesis by auto
  next
    case (failed f st2 r)
    assume p: "pendingStrategyMode state' = Some m"
    from failed(3) assms have e: "st2 = state'" by simp
    from fallbackCycle_step(5,6)[OF failed(2)[unfolded e]] p show ?thesis by simp
  qed
qed

lemma runCycles_length [simp]: "length (runCycles st cs) = length cs"
  by (induction cs arbitrary: st) (auto split: prod.splits)

lemma runCycles_Cons:
  "runCycles st (c # cs) = snd (decisionCycle st c) # runCycles (fst (decisionCycle st c)) cs"
  by (simp split: prod.splits)

lemma runCycles_time: "j < length cs \<Longrightarrow> outTime (runCycles st cs ! j) = ci_now (cs ! j)"
proof (induction cs arbitrary: st j)
  case Nil
  then show ?case by simp
next
  case (Cons c cs)
  obtain st' r where e: "decisionCycle st c = (st', r)" by (cases "decisionCycle st c")
  show ?case
  proof (cases j)
    case 0
    then show ?thesis using e decisionCycle_step(1)[OF e] by (simp add: runCycles_Cons)
  next
    case (Suc k)
    then show ?thesis using Cons e by (simp add: runCycles_Cons)
  qed
qed

lemma confirmed_switch_has_earlier_vote:
  assumes "j < length cs"
    and "runCycles st cs ! j = Resolved r"
    and "modeSwitched r"
    and "\<not> hy_forced (cr_hysteresis r)"
  shows "(\<exists>i<j. \<exists>v. runCycles st cs ! i = Resolved v
             \<and> mr_mode (cr_modeResolved v) = hy_mode (cr_hysteresis r)
             \<and> hy_reason (cr_hysteresis v) = ''pending_switch_vote''
             \<and> \<not> modeSwitched v
             \<and> cr_time v + MODE_SWITCH_MIN_DWELL_MS \<le> cr_time r)
       \<or> (pendingStrategyMode st = Some (hy_mode (cr_hysteresis r))
             \<and> pendingStrategySince st + MODE_SWITCH_MIN_DWELL_MS \<le> cr_time r)"
  using assms
proof (induction cs arbitrary: st j)
  case Nil
  then show ?case by simp
next
  case (Cons c cs)
  obtain st' out where e: "decisionCycle st c = (st', out)" by (cases "decisionCycle st c")
  have rc: "runCycles st (c # cs) = out # runCycles st' cs" using e by simp
  let ?m = "hy_mode (cr_hysteresis r)"
  show ?case
  proof (cases j)
    case 0
    with Cons.prems rc have "out = Resolved r" by simp
    with e have e': "resolveCycle st c = (st', r)" by (simp add: decisionCycle_Resolved)
    from resolveCycle_step(6)[OF e' Cons.prems(3,4)] resolveCycle_step(1)[OF e']
    show ?thesis by simp
  next
    case (Suc k)
    let ?rs = "runCycles st' cs"
    from Cons.prems Suc rc have k: "k < length cs" "?rs ! k = Resolved r" by simp_all
    from Cons.IH[OF k Cons.prems(3,4)] consider
      (earlier) i v where "i < k" "?rs ! i = Resolved v" "mr_mode (cr_modeResolved v) = ?m"
         "hy_reason (cr_hysteresis v) = ''pending_switch_vote''"
         "\<not> modeSwitched v"
         "cr_time v + MODE_SWITCH_MIN_DWELL_MS \<le> cr_time r"
    | (pending) "pendingStrategyMode st' = Some ?m"
         "pendingStrategySince st' + MODE_SWITCH_MIN_DWELL_MS \<le> cr_time r"
      by blast
    then show ?thesis
    proof cases
      case earlier
      then have "Suc i < j \<and> (out # ?rs) ! Suc i = Resolved v
         \<and> mr_mode (cr_modeResolved v) = ?m
         \<and> hy_reason (cr_hysteresis v) = ''pending_switch_vote''
         \<and> \<not> modeSwitched v
         \<and> cr_time v + MODE_SWITCH_MIN_DWELL_MS \<le> cr_time r"
        using Suc by simp
      then show ?thesis unfolding rc by blast
    next
      case pending
      from decisionCycle_step(6)[OF e pending(1)] show ?thesis
      proof
        assume "pendingStrategyMode st = Some ?m \<and> pendingStrategySince st' = pendingStrategySince st"
        then show ?thesis using pending(2) by simp
      next
        assume "\<exists>v. out = Resolved v \<and> mr_mode (cr_modeResolved v) = ?m
              \<and> hy_reason (cr_hysteresis v) = ''pending_switch_vote''
              \<and> \<not> modeSwitched v \<and> pendingStrategySince st' = ci_now c"
        then obtain v where a: "out = Resolved v" "mr_mode (cr_modeResolved v) = ?m"
            "hy_reason (cr_hysteresis v) = ''pending_switch_vote''" "\<not> modeSwitched v"
            "pendingStrategySince st' = ci_now c" by blast
        have "cr_time v = ci_now c" using decisionCycle_step(1)[OF e] a(1) by simp
        then have "0 < j \<and> (out # ?rs) ! 0 = Resolved v
           \<and> mr_mode (cr_modeResolved v) = ?m
           \<and> hy_reason (cr_hysteresis v) = ''pending_switch_vote''
           \<and> \<not> modeSwitched v
           \<and> cr_time v + MODE_SWITCH_MIN_DWELL_MS \<le> cr_time r"
          using a pending(2) Suc by simp
        then show ?thesis unfolding rc by blast
      qed
    qed
  qed
qed

lemma unforced_switch_respects_cooldown:
  assumes "sorted (map ci_now cs)"
    and "\<forall>c \<in> set cs. lastModeSwitchAt st \<le> ci_now c \<and> 0 < ci_now c"
    and "j < length cs"
    and "runCycles st cs ! j = Resolved r"
    and "modeSwitched r"
    and "\<not> hy_forced (cr_hysteresis r)"
  shows "(lastModeSwitchAt st \<le> 0 \<or> lastModeSwitchAt st + MODE_SWITCH_COOLDOWN_MS \<le> ci_now (cs ! j))
       \<and> (\<forall>i<j. outSwitched (runCycles st cs ! i) \<and> \<not> isFallback (runCycles st cs ! i)
              \<longrightarrow> ci_now (cs ! i) + MODE_SWITCH_COOLDOWN_MS \<le> ci_now (cs ! j))"
  using assms
proof (induction cs arbitrary: st j)
  case Nil
  then show ?case by simp
next
  case (Cons c cs)
  obtain st' out where e: "decisionCycle st c = (st', out)" by (cases "decisionCycle st c")
  have rc: "runCycles st (c # cs) = out # runCycles st' cs" using e by simp
  show ?case
  proof (cases j)
    case 0
    with Cons.prems rc have "out = Resolved r" by simp
    with e have e': "resolveCycle st c = (st', r)" by (simp add: decisionCycle_Resolved)
    from resolveCycle_step(6)[OF e' Cons.prems(5,6)] show ?thesis unfolding 0 by auto
  next
    case (Suc k)
    let ?rs = "runCycles st' cs"
    have c0: "lastModeSwitchAt st \<le> ci_now c" "0 < ci_now c" using Cons.prems(2) by simp_all
    have le: "\<forall>x \<in> set cs. ci_now c \<le> ci_now x" using Cons.prems(1) by simp
    have srt: "sorted (map ci_now cs)" using Cons.prems(1) by simp
    have stamp: "lastModeSwitchAt st' = lastModeSwitchAt st \<or> lastModeSwitchAt st' = ci_now c"
      by (rule decisionCycle_step(4)[OF e])
    have bnd: "\<forall>x \<in> set cs. lastModeSwitchAt st' \<le> ci_now x \<and> 0 < ci_now x"
      using stamp le Cons.prems(2) by auto
    from Cons.prems Suc rc have k: "k < length cs" "?rs ! k = Resolved r" by simp_all
    from Cons.IH[OF srt bnd k Cons.prems(5,6)] have ih:
      "lastModeSwitchAt st' \<le> 0 \<or> lastModeSwitchAt st' + MODE_SWITCH_COOLDOWN_MS \<le> ci_now (cs ! k)"
      "\<forall>i<k. outSwitched (?rs ! i) \<and> \<not> isFallback (?rs ! i)
          \<longrightarrow> ci_now (cs ! i) + MODE_SWITCH_COOLDOWN_MS \<le> ci_now (cs ! k)"
      by simp_all
    have a: "lastModeSwitchAt st \<le> 0 \<or> lastModeSwitchAt st + MODE_SWITCH_COOLDOWN_MS \<le> ci_now ((c # cs) ! j)"
      using ih(1) stamp c0 Suc by auto
    have b: "outSwitched ((out # ?rs) ! i) \<and> \<not> isFallback ((out # ?rs) ! i)
        \<longrightarrow> ci_now ((c # cs) ! i) + MODE_SWITCH_COOLDOWN_MS \<le> ci_now ((c # cs) ! j)"
      if "i < j" for i
    proof (cases i)
      case 0
      show ?thesis
      proof
        assume "outSwitched ((out # ?rs) ! i) \<and> \<not> isFallback ((out # ?rs) ! i)"
        then have "lastModeSwitchAt st' = ci_now c" using 0 decisionCycle_step(5)[OF e] by simp
        then show "ci_now ((c # cs) ! i) + MODE_SWITCH_COOLDOWN_MS \<le> ci_now ((c # cs) ! j)"
          using ih(1) c0 0 Suc by simp
      qed
    next
      case (Suc i')
      then show ?thesis using ih(2) that \<open>j = Suc k\<close> by simp
    qed
    show ?thesis unfolding rc using a b by blast
  qed
qed

lemma runCycles_nth:
  "j < length cs \<Longrightarrow> runCycles st cs ! j = snd (decisionCycle (finalState st (take j cs)) (cs ! j))"
proof (induction cs arbitrary: st j)
  case Nil
  then show ?case by simp
next
  case (Cons c cs)
  show ?case
  proof (cases j)
    case 0
    then show ?thesis by (simp del: runCycles.simps add: runCycles_Cons)
  next
    case (Suc k)
    then show ?thesis using Cons by (simp del: runCycles.simps add: runCycles_Cons)
  qed
qed

lemma decisionCycle_usable:
  "ci_failure ci = None \<Longrightarrow> decisionCycle state ci
     = (fst (resolveCycle state ci), Resolved (snd (resolveCycle state ci)))"
  by (simp add: decisionCycle_def case_prod_beta)

lemma decisionCycle_failed:
  "ci_failure ci = Some f \<Longrightarrow> decisionCycle state ci
     = (fst (fallbackCycle state ci f), Fallback (snd (fallbackCycle state ci f)))"
  by (simp add: decisionCycle_def case_prod_beta)

subsection \<open>The concrete runs, cycle by cycle\<close>

lemmas cycle_defs = resolveCycle_def updateContactTracking_def inferContextModeSignal_def
  resolveStrategyModeWithContext_def stabilizeStrategyModeWithHysteresis_def clearPending_def
  resolveSkillWithContext_def enforceSkillCadence_def forwardApproachReady_def normalizeSkillName_def
  frontArc_def asNum_def clamp01_def countTargetHits_def byModeChange_def

lemma usable_cycles:
  "ci_failure cycleStuck = None" "ci_failure cycleOpenFirst = None" "ci_failure cycleOpenSecond = None"
  "ci_failure cycleNearTarget = None" "ci_failure cycleLockVote = None" "ci_failure cycleLockConfirm = None"
  "ci_failure cycleApproachRequested = None" "ci_failure cycleFrontierRequested = None"
  by (simp_all add: cycleStuck_def cycleOpenFirst_def cycleOpenSecond_def cycleNearTarget_def
      cycleLockVote_def cycleLockConfirm_def cycleApproachRequested_def cycleFrontierRequested_def)

lemma run_state_1: "fst (resolveCycle freshState cycleStuck) = stateAfterStuck"
  by (simp add: cycle_defs Let_def freshState_def cycleStuck_def sensorEscapeFrontBlocked_def
      stateAfterStuck_def)

lemma run_state_2: "fst (resolveCycle stateAfterStuck cycleOpenFirst) = stateAfterOpenFirst"
  by (simp add: cycle_defs Let_def cycleOpenFirst_def sensorExploreNoTarget_def
      stateAfterStuck_def stateAfterOpenFirst_def)

lemma run_state_3: "fst (resolveCycle stateAfterOpenFirst cycleOpenSecond) = stateAfterOpenSecond"
  by (simp add: cycle_defs Let_def cycleOpenSecond_def sensorExploreNoTarget_def
      stateAfterOpenFirst_def stateAfterOpenSecond_def)

lemma run_result_2:
  "let r = snd (resolveCycle stateAfterStuck cycleOpenFirst)
   in cr_time r = 2300 \<and> cr_previousMode r = Some ESCAPE_RECOVERY
      \<and> mr_mode (cr_modeResolved r) = MEMORY_EXPLORE
      \<and> hy_mode (cr_hysteresis r) = ESCAPE_RECOVERY
      \<and> hy_reason (cr_hysteresis r) = ''pending_switch_vote''"
  by (simp add: cycle_defs Let_def cycleOpenFirst_def sensorExploreNoTarget_def stateAfterStuck_def)

lemma run_result_3:
  "let r = snd (resolveCycle stateAfterOpenFirst cycleOpenSecond)
   in cr_time r = 3800 \<and> cr_previousMode r = Some ESCAPE_RECOVERY
      \<and> hy_mode (cr_hysteresis r) = MEMORY_EXPLORE \<and> \<not> hy_forced (cr_hysteresis r)
      \<and> hy_reason (cr_hysteresis r) = ''hysteresis_confirmed_switch''
      \<and> \<not> danger (cr_signal r) \<and> \<not> lockPriority (cr_signal r)"
  by (simp add: cycle_defs Let_def cycleOpenSecond_def sensorExploreNoTarget_def stateAfterOpenFirst_def)

lemma run_result_4:
  "let r = snd (resolveCycle stateAfterOpenSecond cycleNearTarget)
   in cr_time r = 4300 \<and> cr_previousMode r = Some MEMORY_EXPLORE
      \<and> hy_mode (cr_hysteresis r) = TARGET_LOCK \<and> hy_forced (cr_hysteresis r)
      \<and> hy_reason (cr_hysteresis r) = ''strong_lock_promotion''
      \<and> \<not> danger (cr_signal r) \<and> \<not> lockPriority (cr_signal r)"
  by (simp add: cycle_defs Let_def cycleNearTarget_def sensorNearTargetOffAxis_def stateAfterOpenSecond_def)

lemma run_nth_1:
  "runCycles freshState cyclesEscapeExploreLock ! 1 = Resolved (snd (resolveCycle stateAfterStuck cycleOpenFirst))"
proof -
  have "1 < length cyclesEscapeExploreLock" by (simp add: cyclesEscapeExploreLock_def)
  from runCycles_nth[OF this, of freshState] show ?thesis
    by (simp del: runCycles.simps add: cyclesEscapeExploreLock_def run_state_1
        decisionCycle_usable usable_cycles)
qed

lemma run_nth_2:
  "runCycles freshState cyclesEscapeExploreLock ! 2
     = Resolved (snd (resolveCycle stateAfterOpenFirst cycleOpenSecond))"
proof -
  have "2 < length cyclesEscapeExploreLock" by (simp add: cyclesEscapeExploreLock_def)
  from runCycles_nth[OF this, of freshState] show ?thesis
    by (simp del: runCycles.simps add: cyclesEscapeExploreLock_def numeral_2_eq_2 run_state_1 run_state_2
        decisionCycle_usable usable_cycles)
qed

lemma run_nth_3:
  "runCycles freshState cyclesEscapeExploreLock ! 3
     = Resolved (snd (resolveCycle stateAfterOpenSecond cycleNearTarget))"
proof -
  have "3 < length cyclesEscapeExploreLock" by (simp add: cyclesEscapeExploreLock_def)
  from runCycles_nth[OF this, of freshState] show ?thesis
    by (simp del: runCycles.simps
        add: cyclesEscapeExploreLock_def numeral_3_eq_3 run_state_1 run_state_2 run_state_3
        decisionCycle_usable usable_cycles)
qed

text \<open>The run with the failed cycle.\<close>

lemma failed_cycles: "ci_failure cycleOpenFailed = Some API_TIMEOUT"
  by (simp add: cycleOpenFailed_def)

lemma fb_state_2: "fst (fallbackCycle stateAfterStuck cycleOpenFailed API_TIMEOUT) = stateAfterOpenFailed"
  by (simp add: fallbackCycle_def cycle_defs Let_def cycleOpenFailed_def cycleOpenFirst_def
      sensorExploreNoTarget_def stateAfterStuck_def stateAfterOpenFailed_def)

lemma fb_state_3: "fst (resolveCycle stateAfterOpenFailed cycleLockVote) = stateAfterLockVote"
  by (simp add: cycle_defs Let_def cycleLockVote_def sensorTargetMidRange_def
      stateAfterOpenFailed_def stateAfterLockVote_def)

lemma fb_result_2:
  "let r = snd (fallbackCycle stateAfterStuck cycleOpenFailed API_TIMEOUT)
   in cf_time r = 2300 \<and> cf_previousMode r = Some ESCAPE_RECOVERY \<and> cf_mode r = MEMORY_EXPLORE
      \<and> \<not> danger (cf_signal r) \<and> \<not> lockPriority (cf_signal r)"
  by (simp add: fallbackCycle_def cycle_defs Let_def cycleOpenFailed_def cycleOpenFirst_def
      sensorExploreNoTarget_def stateAfterStuck_def)

lemma fb_result_4:
  "let r = snd (resolveCycle stateAfterLockVote cycleLockConfirm)
   in cr_time r = 3900 \<and> cr_previousMode r = Some MEMORY_EXPLORE
      \<and> hy_mode (cr_hysteresis r) = TARGET_LOCK \<and> \<not> hy_forced (cr_hysteresis r)
      \<and> hy_reason (cr_hysteresis r) = ''hysteresis_confirmed_switch''
      \<and> \<not> danger (cr_signal r) \<and> \<not> lockPriority (cr_signal r)"
  by (simp add: cycle_defs Let_def cycleLockConfirm_def cycleLockVote_def sensorTargetMidRange_def
      stateAfterLockVote_def)

lemma fb_nth_1:
  "runCycles freshState cyclesFallbackThenConfirm ! 1
     = Fallback (snd (fallbackCycle stateAfterStuck cycleOpenFailed API_TIMEOUT))"
proof -
  have "1 < length cyclesFallbackThenConfirm" by (simp add: cyclesFallbackThenConfirm_def)
  from runCycles_nth[OF this, of freshState] show ?thesis
    by (simp del: runCycles.simps add: cyclesFallbackThenConfirm_def run_state_1
        decisionCycle_usable usable_cycles decisionCycle_failed failed_cycles)
qed

lemma fb_nth_3:
  "runCycles freshState cyclesFallbackThenConfirm ! 3
     = Resolved (snd (resolveCycle stateAfterLockVote cycleLockConfirm))"
proof -
  have "3 < length cyclesFallbackThenConfirm" by (simp add: cyclesFallbackThenConfirm_def)
  from runCycles_nth[OF this, of freshState] show ?thesis
    by (simp del: runCycles.simps
        add: cyclesFallbackThenConfirm_def numeral_3_eq_3 run_state_1 fb_state_2 fb_state_3
        decisionCycle_usable usable_cycles decisionCycle_failed failed_cycles)
qed

subsection \<open>Hysteresis dwell\<close>

text \<open>
  Claim C5. In a run of decision cycles from a fresh session state, failed cycles
  included, whenever the stabilizer changes the mode without a forced override (no
  critical danger, no strong lock promotion, no lock-priority promotion; a target-lock
  hold never changes the mode), the confirmed mode is the candidate of that cycle and
  it was already the candidate of an earlier cycle at least 1.4 seconds before, on
  which it was recorded as the first pending vote and the mode did not change: a
  candidate seen on one cycle only never changes the resolved mode.
\<close>

theorem C5_confirmed_switch_needs_earlier_vote:
  assumes "j < length cs"
    and "runCycles freshState cs ! j = Resolved r"
    and "modeSwitched r"
    and "\<not> hy_forced (cr_hysteresis r)"
  shows "hy_reason (cr_hysteresis r) = ''hysteresis_confirmed_switch''
       \<and> mr_mode (cr_modeResolved r) = hy_mode (cr_hysteresis r)
       \<and> (\<exists>i<j. \<exists>v. runCycles freshState cs ! i = Resolved v
              \<and> mr_mode (cr_modeResolved v) = hy_mode (cr_hysteresis r)
              \<and> hy_reason (cr_hysteresis v) = ''pending_switch_vote''
              \<and> \<not> modeSwitched v
              \<and> cr_time v + MODE_SWITCH_MIN_DWELL_MS \<le> cr_time r)"
proof -
  let ?st = "finalState freshState (take j cs)"
  have "snd (decisionCycle ?st (cs ! j)) = Resolved r"
    using runCycles_nth[OF assms(1), of freshState] assms(2) by simp
  then have "decisionCycle ?st (cs ! j) = (fst (decisionCycle ?st (cs ! j)), Resolved r)"
    by (metis prod.collapse)
  then have e: "resolveCycle ?st (cs ! j) = (fst (decisionCycle ?st (cs ! j)), r)"
    by (rule decisionCycle_Resolved)
  from resolveCycle_step(6)[OF e assms(3,4)]
  have a: "hy_reason (cr_hysteresis r) = ''hysteresis_confirmed_switch''"
    "mr_mode (cr_modeResolved r) = hy_mode (cr_hysteresis r)" by simp_all
  have "pendingStrategyMode freshState = None" by (simp add: freshState_def)
  with confirmed_switch_has_earlier_vote[OF assms] a show ?thesis by simp
qed

text \<open>
  The run stuck, open, open, near target: the switch to MEMORY_EXPLORE at 3.8 s is
  confirmed, and the vote for it is the cycle at 2.3 s.
\<close>

theorem C5_vote_then_confirm_in_concrete_run:
  "runCycles freshState cyclesEscapeExploreLock ! 2
     = Resolved (snd (resolveCycle stateAfterOpenFirst cycleOpenSecond))
   \<and> modeSwitched (snd (resolveCycle stateAfterOpenFirst cycleOpenSecond))
   \<and> \<not> hy_forced (cr_hysteresis (snd (resolveCycle stateAfterOpenFirst cycleOpenSecond)))
   \<and> (\<exists>i<2. \<exists>v. runCycles freshState cyclesEscapeExploreLock ! i = Resolved v
          \<and> mr_mode (cr_modeResolved v) = MEMORY_EXPLORE
          \<and> hy_reason (cr_hysteresis v) = ''pending_switch_vote''
          \<and> \<not> modeSwitched v
          \<and> cr_time v + 1400 \<le> 3800)"
proof -
  let ?r = "snd (resolveCycle stateAfterOpenFirst cycleOpenSecond)"
  have l: "2 < length cyclesEscapeExploreLock" by (simp add: cyclesEscapeExploreLock_def)
  have s: "modeSwitched ?r"
    and f: "\<not> hy_forced (cr_hysteresis ?r)"
    and m: "hy_mode (cr_hysteresis ?r) = MEMORY_EXPLORE"
    and t: "cr_time ?r = 3800"
    using run_result_3 by (simp_all add: byModeChange_def Let_def)
  from C5_confirmed_switch_needs_earlier_vote[OF l run_nth_2 s f] s f run_nth_2 show ?thesis
    unfolding m t by blast
qed

subsection \<open>Switch cooldown\<close>

text \<open>
  Claim C4, as stated, fails: in the run with the failed cycle the mode switches at
  2.3 s, from ESCAPE_RECOVERY to MEMORY_EXPLORE, by the fallback of the failed cycle
  (which writes the expected mode of the context to the session state and leaves the
  time of the last switch untouched), and again at 3.9 s, to TARGET_LOCK, by a confirmed
  hysteresis switch. Neither switch is a forced override of the stabilizer, and neither
  cycle has danger or lock priority in its context signal.
\<close>

theorem C4_two_switches_within_cooldown:
  "outSwitched (runCycles freshState cyclesFallbackThenConfirm ! 1)
   \<and> outSwitched (runCycles freshState cyclesFallbackThenConfirm ! 3)
   \<and> outTime (runCycles freshState cyclesFallbackThenConfirm ! 3)
        - outTime (runCycles freshState cyclesFallbackThenConfirm ! 1) < MODE_SWITCH_COOLDOWN_MS
   \<and> isFallback (runCycles freshState cyclesFallbackThenConfirm ! 1)
   \<and> \<not> outForcedOverride (runCycles freshState cyclesFallbackThenConfirm ! 1)
   \<and> \<not> outForcedOverride (runCycles freshState cyclesFallbackThenConfirm ! 3)
   \<and> \<not> danger (outSignal (runCycles freshState cyclesFallbackThenConfirm ! 1))
   \<and> \<not> lockPriority (outSignal (runCycles freshState cyclesFallbackThenConfirm ! 1))
   \<and> \<not> danger (outSignal (runCycles freshState cyclesFallbackThenConfirm ! 3))
   \<and> \<not> lockPriority (outSignal (runCycles freshState cyclesFallbackThenConfirm ! 3))"
  unfolding fb_nth_1 fb_nth_3 using fb_result_2 fb_result_4
  by (simp add: outSwitched_def byModeChange_def Let_def)

text \<open>
  Claim C4, amended. In a run of decision cycles from a fresh session state, with clock
  readings that are positive and do not decrease, whenever the resolved strategy mode
  switches twice within 2.2 seconds, the later switch is a forced override of the
  stabilizer (a critical-danger override, a lock-priority promotion or a strong-lock
  promotion), or one of the two switches is the fallback of a failed cycle.
\<close>

theorem C4_second_switch_within_cooldown:
  assumes "sorted (map ci_now cs)"
    and "\<forall>c \<in> set cs. 0 < ci_now c"
    and "i < j" and "j < length cs"
    and "outSwitched (runCycles freshState cs ! i)"
    and "outSwitched (runCycles freshState cs ! j)"
    and "outTime (runCycles freshState cs ! j) - outTime (runCycles freshState cs ! i) < MODE_SWITCH_COOLDOWN_MS"
  shows "outForcedOverride (runCycles freshState cs ! j)
       \<or> isFallback (runCycles freshState cs ! j)
       \<or> isFallback (runCycles freshState cs ! i)"
proof (cases "runCycles freshState cs ! j")
  case (Fallback f)
  then show ?thesis by simp
next
  case (Resolved r)
  have b: "\<forall>c \<in> set cs. lastModeSwitchAt freshState \<le> ci_now c \<and> 0 < ci_now c"
    using assms(2) by (auto simp: freshState_def)
  have t: "outTime (runCycles freshState cs ! j) = ci_now (cs ! j)"
    "outTime (runCycles freshState cs ! i) = ci_now (cs ! i)"
    using assms(3,4) by (simp_all add: runCycles_time)
  have sw: "modeSwitched r" using assms(6) Resolved by (simp add: outSwitched_def)
  show ?thesis
  proof (cases "hy_forced (cr_hysteresis r)")
    case True
    let ?st = "finalState freshState (take j cs)"
    have "snd (decisionCycle ?st (cs ! j)) = Resolved r"
      using runCycles_nth[OF assms(4), of freshState] Resolved by simp
    then have "decisionCycle ?st (cs ! j) = (fst (decisionCycle ?st (cs ! j)), Resolved r)"
      by (metis prod.collapse)
    then have e: "resolveCycle ?st (cs ! j) = (fst (decisionCycle ?st (cs ! j)), r)"
      by (rule decisionCycle_Resolved)
    from resolveCycle_step(7)[OF e sw True] True Resolved show ?thesis by simp
  next
    case False
    have "isFallback (runCycles freshState cs ! i)"
    proof (rule ccontr)
      assume n: "\<not> isFallback (runCycles freshState cs ! i)"
      from unforced_switch_respects_cooldown[OF assms(1) b assms(4) Resolved sw False] assms(3,5) n
      have "ci_now (cs ! i) + MODE_SWITCH_COOLDOWN_MS \<le> ci_now (cs ! j)" by blast
      with assms(7) t show False by simp
    qed
    then show ?thesis by simp
  qed
qed

text \<open>
  The run stuck, open, open, near target: the switches at 3.8 s and 4.3 s are both made
  by the stabilizer, and the later one is a strong-lock promotion.
\<close>

theorem C4_forced_second_switch_in_concrete_run:
  "sorted (map ci_now cyclesEscapeExploreLock)
   \<and> outSwitched (runCycles freshState cyclesEscapeExploreLock ! 2)
   \<and> outSwitched (runCycles freshState cyclesEscapeExploreLock ! 3)
   \<and> \<not> isFallback (runCycles freshState cyclesEscapeExploreLock ! 2)
   \<and> \<not> isFallback (runCycles freshState cyclesEscapeExploreLock ! 3)
   \<and> outForcedOverride (runCycles freshState cyclesEscapeExploreLock ! 3)"
proof -
  have a: "sorted (map ci_now cyclesEscapeExploreLock)"
    and p: "\<forall>c \<in> set cyclesEscapeExploreLock. 0 < ci_now c"
    by (simp_all add: cyclesEscapeExploreLock_def cycleStuck_def cycleOpenFirst_def
        cycleOpenSecond_def cycleNearTarget_def)
  have l: "(2::nat) < 3" "3 < length cyclesEscapeExploreLock" by (simp_all add: cyclesEscapeExploreLock_def)
  have s2: "outSwitched (runCycles freshState cyclesEscapeExploreLock ! 2)"
    and s3: "outSwitched (runCycles freshState cyclesEscapeExploreLock ! 3)"
    and d: "outTime (runCycles freshState cyclesEscapeExploreLock ! 3)
        - outTime (runCycles freshState cyclesEscapeExploreLock ! 2) < MODE_SWITCH_COOLDOWN_MS"
    and n: "\<not> isFallback (runCycles freshState cyclesEscapeExploreLock ! 2)"
      "\<not> isFallback (runCycles freshState cyclesEscapeExploreLock ! 3)"
    using run_result_3 run_result_4
    by (simp_all add: run_nth_2 run_nth_3 outSwitched_def byModeChange_def Let_def)
  from C4_second_switch_within_cooldown[OF a p l s2 s3 d] a s2 s3 n show ?thesis by simp
qed

subsection \<open>Cadence of skills\<close>
















subsection \<open>The concrete runs for the cadence, cycle by cycle\<close>

lemma approach_run_state: "fst (resolveCycle freshState cycleApproachRequested) = stateAfterApproachRequested"
  by (simp add: cycle_defs Let_def freshState_def cycleApproachRequested_def sensorExploreNoTarget_def
      stateAfterApproachRequested_def)

lemma approach_run_state_2:
  "fst (resolveCycle stateAfterApproachRequested cycleFrontierRequested) = stateAfterApproachHeld"
  by (simp add: cycle_defs Let_def cycleFrontierRequested_def sensorTargetMidRange_def
      stateAfterApproachRequested_def stateAfterApproachHeld_def)

lemma approach_run_state_2_asked:
  "fst (resolveCycle stateAfterApproachRequested cycleApproachAgain) = stateAfterApproachAsked"
  by (simp add: cycle_defs Let_def cycleApproachAgain_def cycleFrontierRequested_def sensorTargetMidRange_def
      stateAfterApproachRequested_def stateAfterApproachAsked_def stateAfterApproachHeld_def)

lemma approach_run_result_1:
  "let r = snd (resolveCycle freshState cycleApproachRequested)
   in cr_previousSkill r = MOVE_TO_FRONTIER \<and> cd_skill (cr_cadence r) = APPROACH_TARGET"
  by (simp add: cycle_defs Let_def freshState_def cycleApproachRequested_def sensorExploreNoTarget_def)

lemma approach_run_result_2:
  "let r = snd (resolveCycle stateAfterApproachRequested cycleFrontierRequested)
   in hy_mode (cr_hysteresis r) = MEMORY_EXPLORE \<and> sr_skill (cr_skillResolved r) = MOVE_TO_FRONTIER
      \<and> cd_skill (cr_cadence r) = APPROACH_TARGET
      \<and> forwardApproachReady (cr_signal r) sensorTargetMidRange"
  by (simp add: cycle_defs Let_def cycleFrontierRequested_def sensorTargetMidRange_def
      stateAfterApproachRequested_def)

lemma approach_run_result_2_asked:
  "let r = snd (resolveCycle stateAfterApproachRequested cycleApproachAgain)
   in cd_skill (cr_cadence r) = APPROACH_TARGET"
  by (simp add: cycle_defs Let_def cycleApproachAgain_def cycleFrontierRequested_def sensorTargetMidRange_def
      stateAfterApproachRequested_def)


lemma approach_run_result_3:
  "let r = snd (resolveCycle stateAfterApproachHeld cycleFrontierAgain)
   in hy_mode (cr_hysteresis r) = MEMORY_EXPLORE \<and> cd_skill (cr_cadence r) = MOVE_TO_FRONTIER
      \<and> forwardApproachReady (cr_signal r) sensorTargetMidRange"
  by (simp add: cycle_defs Let_def cycleFrontierAgain_def cycleFrontierRequested_def sensorTargetMidRange_def
      stateAfterApproachHeld_def)

lemma approach_run_result_3_asked:
  "let r = snd (resolveCycle stateAfterApproachAsked cycleFrontierAgain)
   in hy_mode (cr_hysteresis r) = MEMORY_EXPLORE \<and> sr_skill (cr_skillResolved r) = MOVE_TO_FRONTIER
      \<and> cd_skill (cr_cadence r) = APPROACH_TARGET"
  by (simp add: cycle_defs Let_def cycleFrontierAgain_def cycleFrontierRequested_def sensorTargetMidRange_def
      stateAfterApproachAsked_def stateAfterApproachHeld_def)

lemma more_cycles:
  "ci_failure cycleFrontierAgain = None" "ci_failure cycleApproachAgain = None"
  "ci_failure cycleFrontierFailed = Some API_ERROR"
  by (simp_all add: cycleFrontierAgain_def cycleApproachAgain_def cycleFrontierFailed_def
      cycleFrontierRequested_def)

lemmas cycle_outcomes = decisionCycle_usable decisionCycle_failed usable_cycles failed_cycles more_cycles

lemma approach_nth_0:
  "runCycles freshState (cycleApproachRequested # cs) ! 0
     = Resolved (snd (resolveCycle freshState cycleApproachRequested))"
  by (simp del: runCycles.simps add: runCycles_Cons cycle_outcomes)

lemma approach_nth_1:
  "runCycles freshState (cycleApproachRequested # c # cs) ! 1
     = snd (decisionCycle stateAfterApproachRequested c)"
  by (simp del: runCycles.simps add: runCycles_Cons cycle_outcomes approach_run_state)

lemma approach_released_nth_2:
  "runCycles freshState cyclesApproachReleased ! 2
     = Resolved (snd (resolveCycle stateAfterApproachHeld cycleFrontierAgain))"
  by (simp del: runCycles.simps add: cyclesApproachReleased_def numeral_2_eq_2 runCycles_Cons
      cycle_outcomes approach_run_state approach_run_state_2)

lemma approach_asked_nth_2:
  "runCycles freshState cyclesApproachAsked ! 2
     = Resolved (snd (resolveCycle stateAfterApproachAsked cycleFrontierAgain))"
  by (simp del: runCycles.simps add: cyclesApproachAsked_def numeral_2_eq_2 runCycles_Cons
      cycle_outcomes approach_run_state approach_run_state_2_asked)

subsection \<open>Cadence limits\<close>




subsection \<open>Length of the approach hold\<close>

text \<open>
  \<^verbatim>\<open>APPROACH_MIN_HOLD_CYCLES\<close> is 3, and a cycle that enters APPROACH_TARGET leaves the
  counter at 2. On a later cycle on which the hold replaces the requested skill,
  \<^verbatim>\<open>enforceSkillCadence\<close> decrements the counter where it applies the hold and once more
  in the bookkeeping for APPROACH_TARGET that follows, so the counter goes from 2 to 0
  and the third cycle is not held, although the forward approach is still ready and
  the mode is MEMORY_EXPLORE. When the model itself asks for APPROACH_TARGET on the
  second cycle, only the bookkeeping decrements, the counter goes from 2 to 1, and the
  third cycle is held.
\<close>

lemma approach_hold_lasts_two_cycles_when_forced:
  "map outSkill (runCycles freshState cyclesApproachReleased)
     = [APPROACH_TARGET, APPROACH_TARGET, MOVE_TO_FRONTIER]
   \<and> approachHoldRemaining (finalState freshState (take 1 cyclesApproachReleased)) = 2
   \<and> approachHoldRemaining (finalState freshState (take 2 cyclesApproachReleased)) = 0
   \<and> forwardApproachReady (outSignal (runCycles freshState cyclesApproachReleased ! 2))
        (ci_sensor (cyclesApproachReleased ! 2))
   \<and> outMode (runCycles freshState cyclesApproachReleased ! 2) = MEMORY_EXPLORE"
proof -
  have l: "length (runCycles freshState cyclesApproachReleased) = 3"
    by (simp del: runCycles.simps add: cyclesApproachReleased_def)
  have n0: "outSkill (runCycles freshState cyclesApproachReleased ! 0) = APPROACH_TARGET"
    unfolding cyclesApproachReleased_def approach_nth_0 using approach_run_result_1 by (simp add: Let_def)
  have n1: "outSkill (runCycles freshState cyclesApproachReleased ! 1) = APPROACH_TARGET"
    unfolding cyclesApproachReleased_def approach_nth_1 using approach_run_result_2
    by (simp add: Let_def cycle_outcomes)
  have n2: "outSkill (runCycles freshState cyclesApproachReleased ! 2) = MOVE_TO_FRONTIER"
    "forwardApproachReady (outSignal (runCycles freshState cyclesApproachReleased ! 2))
        (ci_sensor (cyclesApproachReleased ! 2))"
    "outMode (runCycles freshState cyclesApproachReleased ! 2) = MEMORY_EXPLORE"
    unfolding approach_released_nth_2 using approach_run_result_3
    by (simp_all add: Let_def cyclesApproachReleased_def cycleFrontierAgain_def cycleFrontierRequested_def)
  have "finalState freshState (take 1 cyclesApproachReleased) = stateAfterApproachRequested"
    "finalState freshState (take 2 cyclesApproachReleased) = stateAfterApproachHeld"
    by (simp_all add: cyclesApproachReleased_def numeral_2_eq_2 cycle_outcomes approach_run_state
        approach_run_state_2)
  then have s: "approachHoldRemaining (finalState freshState (take 1 cyclesApproachReleased)) = 2"
    "approachHoldRemaining (finalState freshState (take 2 cyclesApproachReleased)) = 0"
    by (simp_all add: stateAfterApproachRequested_def stateAfterApproachHeld_def)
  have "map outSkill (runCycles freshState cyclesApproachReleased)
     = [APPROACH_TARGET, APPROACH_TARGET, MOVE_TO_FRONTIER]"
    using l n0 n1 n2(1) by (intro nth_equalityI) (auto simp: less_Suc_eq numeral_3_eq_3 numeral_2_eq_2)
  with s n2 show ?thesis by simp
qed

lemma approach_hold_lasts_three_cycles_when_asked:
  "map outSkill (runCycles freshState cyclesApproachAsked)
     = [APPROACH_TARGET, APPROACH_TARGET, APPROACH_TARGET]
   \<and> approachHoldRemaining (finalState freshState (take 2 cyclesApproachAsked)) = 1"
proof -
  have l: "length (runCycles freshState cyclesApproachAsked) = 3"
    by (simp del: runCycles.simps add: cyclesApproachAsked_def)
  have n0: "outSkill (runCycles freshState cyclesApproachAsked ! 0) = APPROACH_TARGET"
    unfolding cyclesApproachAsked_def approach_nth_0 using approach_run_result_1 by (simp add: Let_def)
  have n1: "outSkill (runCycles freshState cyclesApproachAsked ! 1) = APPROACH_TARGET"
    unfolding cyclesApproachAsked_def approach_nth_1 using approach_run_result_2_asked
    by (simp add: Let_def cycle_outcomes)
  have n2: "outSkill (runCycles freshState cyclesApproachAsked ! 2) = APPROACH_TARGET"
    unfolding approach_asked_nth_2 using approach_run_result_3_asked by (simp add: Let_def)
  have "finalState freshState (take 2 cyclesApproachAsked) = stateAfterApproachAsked"
    by (simp add: cyclesApproachAsked_def numeral_2_eq_2 cycle_outcomes approach_run_state
        approach_run_state_2_asked)
  then have s: "approachHoldRemaining (finalState freshState (take 2 cyclesApproachAsked)) = 1"
    by (simp add: stateAfterApproachAsked_def)
  have "map outSkill (runCycles freshState cyclesApproachAsked)
     = [APPROACH_TARGET, APPROACH_TARGET, APPROACH_TARGET]"
    using l n0 n1 n2 by (intro nth_equalityI) (auto simp: less_Suc_eq numeral_3_eq_3 numeral_2_eq_2)
  with s show ?thesis by simp
qed

section \<open>Properties of the safety guard\<close>












section \<open>Properties of the spatial memory grid\<close>

subsection \<open>Candidate score\<close>

lemma if_minus: "(if b then s - c else s) = s - (if b then c else (0::real))"
  and if_plus: "(if b then s + c else s) = s + (if b then c else (0::real))"
  by simp_all

lemma score_formula:
  "c_score (evaluateCandidate state ox oz h oix oiz nix niz) =
     (let cand = evaluateCandidate state ox oz h oix oiz nix niz;
          center = toCellCenter nix niz (cellSize state);
          boundsPenalty = snd (getBoundsPenalty (fst center) (snd center) (mem_worldBounds state))
      in c_novelty cand * 0.95 + c_openBias cand * 0.4 - c_risk cand * 0.95
           - c_targetPenalty cand * 0.95 - c_distance cand * 0.09
         + (if c_visits cand = 0 \<and> \<not> c_barrierBlocked cand \<and> \<not> c_outsideBounds cand then 0.22 else 0)
         - boundsPenalty
         - (if c_openHits cand + c_obstacleHits cand = 0 then 0.15 else 0)
         - (if c_barrierBlocked cand then 0.9 else 0)
         - (if c_outsideBounds cand then 1.2 else 0)
         - (if c_obstacleDominant cand then 0.95 else 0)
         - (if c_obstacleHits cand \<ge> 1 \<and> c_risk cand \<ge> 0.62 then 0.55 else 0)
         - (if c_obstacleHits cand \<ge> 3 then 0.45 else 0)
         - (if c_outerWallHits cand \<ge> 2 then 0.85 else 0)
         - c_repeatPenalty cand)"
  unfolding evaluateCandidate_def Let_def split_def
  by (simp only: candidate.simps if_minus if_plus)

lemma candidate_outside:
  "c_outsideBounds (evaluateCandidate state ox oz h oix oiz nix niz)
     = fst (getBoundsPenalty (fst (toCellCenter nix niz (cellSize state)))
              (snd (toCellCenter nix niz (cellSize state))) (mem_worldBounds state))"
  unfolding evaluateCandidate_def Let_def split_def by (simp only: candidate.simps)

lemma clamp_bounds: "lo \<le> hi \<Longrightarrow> lo \<le> clamp v lo hi \<and> clamp v lo hi \<le> hi"
  by (simp add: clamp_def)

lemma candidate_repeatPenalty_bounds:
  "0 \<le> c_repeatPenalty (evaluateCandidate state ox oz h oix oiz nix niz)
   \<and> c_repeatPenalty (evaluateCandidate state ox oz h oix oiz nix niz) \<le> 1.5"
  unfolding evaluateCandidate_def Let_def split_def
  by (simp only: candidate.simps, rule clamp_bounds, simp)

lemma boundsPenalty_cases:
  "(fst (getBoundsPenalty x z b) \<longrightarrow> snd (getBoundsPenalty x z b) = 2)
   \<and> (\<not> fst (getBoundsPenalty x z b) \<longrightarrow>
        0 \<le> snd (getBoundsPenalty x z b) \<and> snd (getBoundsPenalty x z b) \<le> 0.55)"
proof (cases b)
  case None
  then show ?thesis by (simp add: getBoundsPenalty_def)
next
  case (Some w)
  define m where "m = (case softMargin w of Some m \<Rightarrow> m | None \<Rightarrow> 2.5)"
  define e where "e = min (x - minX w) (min (maxX w - x) (min (z - minZ w) (maxZ w - z)))"
  show ?thesis
  proof (cases "x < minX w \<or> x > maxX w \<or> z < minZ w \<or> z > maxZ w")
    case True
    then show ?thesis using Some by (simp add: getBoundsPenalty_def Let_def)
  next
    case False
    then have e0: "0 \<le> e" by (simp add: e_def)
    define r where "r = (m - e) / m"
    have eq: "getBoundsPenalty x z b = (False, if e < m then r * 0.55 else 0)"
      using Some False by (simp add: getBoundsPenalty_def Let_def m_def e_def r_def)
    show ?thesis
    proof (cases "e < m")
      case True
      then have m0: "0 < m" using e0 by simp
      have "0 \<le> r" using True m0 by (simp add: r_def)
      moreover have "r \<le> 1" using e0 m0 by (simp add: r_def field_simps)
      ultimately have "0 \<le> r * 0.55 \<and> r * 0.55 \<le> 0.55" by simp
      then show ?thesis using eq True by simp
    next
      case False
      then show ?thesis using eq by simp
    qed
  qed
qed

text \<open>
  Claim C8, as stated, fails: for the neighbour cell (1, 0) of the car's cell in an
  empty memory, the cell is inside the world bounds, not barrier-blocked, not
  obstacle-dominant and has no obstacle or outer-wall hit, so the claimed score is
  0.95 - 0.09 - 0.15 = 0.71; the code gives 0.93, because a cell that was never visited
  and is neither blocked nor outside gets a bonus of 0.22.
\<close>

lemma candidate_in_empty_memory:
  "evaluateCandidate emptyMemory 1 1 0 0 0 1 0 =
     \<lparr> c_ix = 1, c_iz = 0, c_dx = 1, c_dz = 0, c_visits = 0, c_risk = 0,
       c_novelty = 1, c_openBias = 0, c_distance = 1, c_sector = relativeSector 1 1 0 3 1,
       c_score = 0.93, c_targetPenalty = 0, c_targetHitCount = 0,
       c_targetMissCount = 0, c_targetAbsenceEMA = 0,
       c_barrierBlocked = False, c_outsideBounds = False,
       c_obstacleDominant = False, c_obstacleHits = 0,
       c_outerWallHits = 0, c_openHits = 0, c_repeatPenalty = 0,
       c_hasData = False \<rparr>"
  by (simp add: evaluateCandidate_def Let_def emptyMemory_def trackWorldBounds_def getCell_def
      clamp_def isCellObstacleDominant_def Math_hypot_def toCellCenter_def hasBarrierBetween_def
      getBoundsPenalty_def)

theorem C8_unvisited_cell_scores_higher_than_claimed:
  "\<not> c_outsideBounds (evaluateCandidate emptyMemory 1 1 0 0 0 1 0)
   \<and> \<not> c_barrierBlocked (evaluateCandidate emptyMemory 1 1 0 0 0 1 0)
   \<and> \<not> c_obstacleDominant (evaluateCandidate emptyMemory 1 1 0 0 0 1 0)
   \<and> c_obstacleHits (evaluateCandidate emptyMemory 1 1 0 0 0 1 0) = 0
   \<and> c_outerWallHits (evaluateCandidate emptyMemory 1 1 0 0 0 1 0) = 0
   \<and> c_novelty (evaluateCandidate emptyMemory 1 1 0 0 0 1 0) * 0.95
       + c_openBias (evaluateCandidate emptyMemory 1 1 0 0 0 1 0) * 0.4
       - c_risk (evaluateCandidate emptyMemory 1 1 0 0 0 1 0) * 0.95
       - c_targetPenalty (evaluateCandidate emptyMemory 1 1 0 0 0 1 0) * 0.95
       - c_distance (evaluateCandidate emptyMemory 1 1 0 0 0 1 0) * 0.09
       - 0.15 = 0.71
   \<and> c_score (evaluateCandidate emptyMemory 1 1 0 0 0 1 0) = 0.93"
  unfolding candidate_in_empty_memory by simp

text \<open>
  Claim C8, amended. For every queried cell, the candidate score equals
  novelty * 0.95 + openBias * 0.4 - risk * 0.95 - targetPenalty * 0.95 - distance * 0.09,
  plus 0.22 when the cell was never visited and is neither barrier-blocked nor outside
  the world bounds, minus the bounds penalty (2.0 outside the bounds, beside the 1.2 of
  the claim; inside, an edge penalty between 0 and 0.55), minus 0.15 when the cell has no
  open or obstacle evidence, minus 0.9 when barrier-blocked, minus 1.2 when outside,
  minus 0.95 when obstacle-dominant, minus 0.55 when the cell has an obstacle hit and
  risk of at least 0.62, minus 0.45 when it has three or more obstacle hits, minus 0.85
  when it has two or more outer-wall hits, and minus the graduated repeat penalty, which
  lies between 0 and 1.5.
\<close>

theorem C8_candidate_score:
  "c_score (evaluateCandidate state ox oz h oix oiz nix niz) =
     (let cand = evaluateCandidate state ox oz h oix oiz nix niz;
          center = toCellCenter nix niz (cellSize state);
          boundsPenalty = snd (getBoundsPenalty (fst center) (snd center) (mem_worldBounds state))
      in c_novelty cand * 0.95 + c_openBias cand * 0.4 - c_risk cand * 0.95
           - c_targetPenalty cand * 0.95 - c_distance cand * 0.09
         + (if c_visits cand = 0 \<and> \<not> c_barrierBlocked cand \<and> \<not> c_outsideBounds cand then 0.22 else 0)
         - boundsPenalty
         - (if c_openHits cand + c_obstacleHits cand = 0 then 0.15 else 0)
         - (if c_barrierBlocked cand then 0.9 else 0)
         - (if c_outsideBounds cand then 1.2 else 0)
         - (if c_obstacleDominant cand then 0.95 else 0)
         - (if c_obstacleHits cand \<ge> 1 \<and> c_risk cand \<ge> 0.62 then 0.55 else 0)
         - (if c_obstacleHits cand \<ge> 3 then 0.45 else 0)
         - (if c_outerWallHits cand \<ge> 2 then 0.85 else 0)
         - c_repeatPenalty cand)
   \<and> (let cand = evaluateCandidate state ox oz h oix oiz nix niz;
            center = toCellCenter nix niz (cellSize state);
            boundsPenalty = snd (getBoundsPenalty (fst center) (snd center) (mem_worldBounds state))
        in (if c_outsideBounds cand then boundsPenalty = 2
            else 0 \<le> boundsPenalty \<and> boundsPenalty \<le> 0.55)
           \<and> 0 \<le> c_repeatPenalty cand \<and> c_repeatPenalty cand \<le> 1.5)"
  using score_formula[of state ox oz h oix oiz nix niz]
    candidate_repeatPenalty_bounds[of state ox oz h oix oiz nix niz]
    boundsPenalty_cases[of "fst (toCellCenter nix niz (cellSize state))"
      "snd (toCellCenter nix niz (cellSize state))" "mem_worldBounds state"]
  by (simp add: Let_def candidate_outside)

theorem C8_score_in_empty_memory:
  "c_score (evaluateCandidate emptyMemory 1 1 0 0 0 1 0) = 0.95 - 0.09 + 0.22 - 0.15"
  using C8_candidate_score[of emptyMemory 1 1 0 0 0 1 0]
  unfolding candidate_in_empty_memory
  by (simp add: Let_def emptyMemory_def trackWorldBounds_def toCellCenter_def getBoundsPenalty_def)

subsection \<open>Malformed positions\<close>

lemma getContext_defined:
  "worldX sd = Some x \<Longrightarrow> worldZ sd = Some z \<Longrightarrow> getContext sd r mf mr state \<noteq> None"
  by (simp add: getContext_def Let_def case_prod_beta)

text \<open>
  Claim C10. For every sensor snapshot whose \<^verbatim>\<open>worldX\<close> or \<^verbatim>\<open>worldZ\<close> is not a finite
  number, \<^verbatim>\<open>update\<close> returns the memory unchanged (no cell is created or changed, nor
  the path or the sensor range) and \<^verbatim>\<open>getContext\<close> returns \<^verbatim>\<open>null\<close>, whatever the
  options; both are plain returns.
\<close>

theorem C10_malformed_position_is_ignored:
  assumes "worldX sd = None \<or> worldZ sd = None"
  shows "update sd now state = state \<and> getContext sd radiusCells maxFrontier maxRisky state = None"
proof (cases "worldX sd")
  case None
  then show ?thesis by (simp add: update_def getContext_def)
next
  case (Some x)
  with assms have "worldZ sd = None" by simp
  with Some show ?thesis by (simp add: update_def getContext_def)
qed

theorem C10_snapshot_without_position:
  "worldX sensorNoPosition = None
   \<and> update sensorNoPosition 1000 memoryWithCell = memoryWithCell
   \<and> cells (update sensorNoPosition 1000 memoryWithCell) = [((0, -5), newCell\<lparr>visits := 3, lastSeen := 900\<rparr>)]
   \<and> getContext sensorNoPosition 2 6 5 memoryWithCell = None"
proof -
  have a: "worldX sensorNoPosition = None" by (simp add: sensorNoPosition_def)
  then have "worldX sensorNoPosition = None \<or> worldZ sensorNoPosition = None" by simp
  from C10_malformed_position_is_ignored[OF this, of 1000 memoryWithCell 2 6 5] a
  show ?thesis by (simp add: memoryWithCell_def)
qed

end
